theory Spec2Isabelle
  imports Main "HOL-Library.Word"
begin

unbundle bit_operations_syntax

section \<open>Voice memo bot: data model\<close>

text \<open>
  The embedding follows the newest revision of the program (the one with \<open>PlayQueue\<close> and
  \<open>IsVoicePlaying\<close>). Go values are modelled by value: a \<open>*VoiceMemo\<close> is only written by
  \<open>Load\<close> before it becomes reachable from the catalog, so no claim depends on aliasing.
\<close>

type_synonym byte = "8 word"

text \<open>The Go error values that the program can observe.\<close>

datatype go_error =
    EOF                 \<comment> \<open>\<open>io.EOF\<close>\<close>
  | ErrUnexpectedEOF    \<comment> \<open>\<open>io.ErrUnexpectedEOF\<close>\<close>
  | ErrNotExist         \<comment> \<open>\<open>os.Open\<close> on a missing file\<close>
  | ErrOther string     \<comment> \<open>any other error of an external call\<close>

text \<open>Run-time panics of the Go program.\<close>

datatype go_panic =
    MakesliceLenOutOfRange    \<comment> \<open>\<open>make([]byte, n)\<close> with \<open>n < 0\<close>\<close>
  | IndexOutOfRange nat nat   \<comment> \<open>index, length\<close>

text \<open>
  How a call ends: it returns, it panics, or its goroutine stays blocked for ever in a
  channel send (with the state reached at that point). A function that cannot block has
  the result type \<open>go_panic + 'a\<close> instead, \<open>Inl\<close> being the panic.
\<close>

datatype 'a outcome = Returned 'a | Panicked go_panic | Blocked 'a

text \<open>\<open>type VoiceMemo struct { name string; buffer [][]byte }\<close>\<close>

record VoiceMemo =
  name :: string
  buffer :: "byte list list"

text \<open>
  A file on disk, as \<open>Load\<close> sees it: its bytes, and what \<open>file.Close()\<close> answers.
\<close>

record os_File =
  contents :: "byte list"
  close_result :: "go_error option"

type_synonym filesystem = "string \<rightharpoonup> os_File"

section \<open>Frame codec: \<open>VoiceMemo.Load\<close>\<close>

text \<open>
  \<open>io.ReadFull(r, buf)\<close> with \<open>len(buf) = n\<close> on the remaining bytes \<open>bs\<close>: nothing to read
  succeeds at once; no byte at all is \<open>io.EOF\<close>; fewer than \<open>n\<close> bytes is
  \<open>io.ErrUnexpectedEOF\<close>; otherwise the first \<open>n\<close> bytes and the rest of the stream.
\<close>

definition io_ReadFull :: "byte list \<Rightarrow> nat \<Rightarrow> go_error + (byte list \<times> byte list)" where
  "io_ReadFull bs n =
     (if n = 0 then Inr ([], bs)
      else if bs = [] then Inl EOF
      else if length bs < n then Inl ErrUnexpectedEOF
      else Inr (take n bs, drop n bs))"

text \<open>\<open>binary.LittleEndian.Uint16\<close> of two bytes, stored into an \<open>int16\<close>.\<close>

definition LittleEndian_int16 :: "byte \<Rightarrow> byte \<Rightarrow> 16 word" where
  "LittleEndian_int16 b0 b1 = (ucast b0) OR (push_bit 8 (ucast b1))"

text \<open>\<open>binary.Read(file, binary.LittleEndian, &opuslen)\<close> with \<open>opuslen int16\<close>.\<close>

definition binary_Read_int16 :: "byte list \<Rightarrow> go_error + (16 word \<times> byte list)" where
  "binary_Read_int16 bs =
     (case io_ReadFull bs 2 of
        Inl e \<Rightarrow> Inl e
      | Inr (d, rest) \<Rightarrow> Inr (LittleEndian_int16 (d ! 0) (d ! 1), rest))"

text \<open>\<open>binary.Read(file, binary.LittleEndian, &IntBuf)\<close> with \<open>len(IntBuf) = n\<close>.\<close>

definition binary_Read_bytes :: "byte list \<Rightarrow> nat \<Rightarrow> go_error + (byte list \<times> byte list)" where
  "binary_Read_bytes bs n = io_ReadFull bs n"

text \<open>
  The \<open>for\<close> loop of \<open>Load\<close> on the unread bytes \<open>bs\<close> of the opened file \<open>f\<close>. The result
  is the memo (frames appended so far) and the error returned (\<open>None\<close> is \<open>nil\<close>).
  \<open>make([]byte, opuslen)\<close> panics when the \<open>int16\<close> is negative. The lines that
  \<open>Load\<close> prints on its error paths are left out of the model.
\<close>

function Load_loop :: "os_File \<Rightarrow> byte list \<Rightarrow> VoiceMemo \<Rightarrow> go_panic + (VoiceMemo \<times> go_error option)" where
  "Load_loop f bs vm =
     (case binary_Read_int16 bs of
        Inl e \<Rightarrow>
          if e = EOF \<or> e = ErrUnexpectedEOF
          then (case close_result f of
                  Some ce \<Rightarrow> Inr (vm, Some ce)
                | None \<Rightarrow> Inr (vm, None))
          else Inr (vm, Some e)
      | Inr (opuslen, rest) \<Rightarrow>
          if sint opuslen < 0 then Inl MakesliceLenOutOfRange
          else (case binary_Read_bytes rest (nat (sint opuslen)) of
                  Inl e \<Rightarrow> Inr (vm, Some e)
                | Inr (IntBuf, rest') \<Rightarrow>
                    Load_loop f rest' (vm\<lparr>buffer := buffer vm @ [IntBuf]\<rparr>)))"
  by pat_completeness auto
termination
proof (relation "measure (\<lambda>(f, bs, vm). length bs)")
  show "wf (measure (\<lambda>(f, bs, vm). length bs))" by simp
next
  fix f :: os_File and bs :: "byte list" and vm :: VoiceMemo
    and x2 x y r and x2a xa ya
  assume a: "binary_Read_int16 bs = Inr x2" "(x, y) = x2"
    and b: "binary_Read_bytes y (nat (sint x)) = Inr x2a" "(xa, ya) = x2a"
  from a have "length y < length bs"
    by (auto simp: binary_Read_int16_def io_ReadFull_def split: if_splits)
  moreover from b have "length ya \<le> length y"
    by (auto simp: binary_Read_bytes_def io_ReadFull_def split: if_splits)
  ultimately show "((f, ya, vm\<lparr>buffer := buffer vm @ [xa]\<rparr>), (f, bs, vm))
      \<in> measure (\<lambda>(f, bs, vm). length bs)"
    by simp
qed

declare Load_loop.simps [simp del]

text \<open>\<open>os.Open\<close> of a path.\<close>

definition os_Open :: "filesystem \<Rightarrow> string \<Rightarrow> go_error + os_File" where
  "os_Open fs path = (case fs path of None \<Rightarrow> Inl ErrNotExist | Some f \<Rightarrow> Inr f)"

definition dca_path :: "string \<Rightarrow> string" where
  "dca_path n = ''voicememo_files/'' @ n @ ''.dca''"

text \<open>\<open>func (vm *VoiceMemo) Load() error\<close>\<close>

definition Load :: "filesystem \<Rightarrow> VoiceMemo \<Rightarrow> go_panic + (VoiceMemo \<times> go_error option)" where
  "Load fs vm =
     (case os_Open fs (dca_path (name vm)) of
        Inl e \<Rightarrow> Inr (vm, Some e)
      | Inr f \<Rightarrow> Load_loop f (contents f) vm)"

text \<open>
  Modelled from the spec: the writer of the container is not part of the repository (the
  files come from the external \<open>dca\<close> tool). The format is "repeated records of
  [2-byte little-endian unsigned frame length][frame-length bytes of payload]".
\<close>

definition le16 :: "nat \<Rightarrow> byte list" where
  "le16 n = [of_nat (n mod 256), of_nat (n div 256 mod 256)]"

fun encode_frames :: "byte list list \<Rightarrow> byte list" where
  "encode_frames [] = []"
| "encode_frames (fr # frs) = le16 (length fr) @ fr @ encode_frames frs"


section \<open>Strings\<close>

text \<open>
  Go strings are byte sequences (UTF-8); \<open>string\<close> is a list of 8-bit characters, so a
  rune outside ASCII is several characters here, as it is several bytes in Go.
\<close>

definition strings_HasPrefix :: "string \<Rightarrow> string \<Rightarrow> bool" where
  "strings_HasPrefix s p = (take (length p) s = p)"

definition strings_TrimPrefix :: "string \<Rightarrow> string \<Rightarrow> string" where
  "strings_TrimPrefix s p = (if strings_HasPrefix s p then drop (length p) s else s)"

text \<open>
  The number of bytes of the white-space rune (\<open>unicode.IsSpace\<close>) at the head of a
  string, 0 when there is none: the six ASCII spaces, U+0085 and U+00A0 (two bytes),
  U+1680, U+2000 to U+200A, U+2028, U+2029, U+202F, U+205F and U+3000 (three bytes).
  Their first bytes are UTF-8 lead bytes, which never occur inside another rune, so a
  match on bytes finds exactly the runes Go decodes.
\<close>

definition space_width :: "string \<Rightarrow> nat" where
  "space_width s =
     (case map (of_char :: char \<Rightarrow> nat) (take 3 s) of
        [] \<Rightarrow> 0
      | c # r \<Rightarrow>
          if (9 \<le> c \<and> c \<le> 13) \<or> c = 32 then 1
          else if c = 0xC2 then
            (case r of d # _ \<Rightarrow> if d = 0x85 \<or> d = 0xA0 then 2 else 0 | [] \<Rightarrow> 0)
          else if c = 0xE1 then (if r = [0x9A, 0x80] then 3 else 0)
          else if c = 0xE2 then
            (case r of
               [d, e] \<Rightarrow>
                 if d = 0x80 \<and> ((0x80 \<le> e \<and> e \<le> 0x8A) \<or> e = 0xA8 \<or> e = 0xA9 \<or> e = 0xAF) then 3
                 else if d = 0x81 \<and> e = 0x9F then 3
                 else 0
             | _ \<Rightarrow> 0)
          else if c = 0xE3 then (if r = [0x80, 0x80] then 3 else 0)
          else 0)"

text \<open>
  \<open>strings.Fields\<close>: the maximal runs of non-space bytes. \<open>skip\<close> counts the bytes still
  to drop of a separator of several bytes, \<open>cur\<close> is the field being read.
\<close>

fun Fields_from :: "nat \<Rightarrow> string \<Rightarrow> string \<Rightarrow> string list" where
  "Fields_from skip cur [] = (if cur = [] then [] else [cur])"
| "Fields_from (Suc k) cur (c # cs) = Fields_from k cur cs"
| "Fields_from 0 cur (c # cs) =
     (let w = space_width (c # cs) in
      if w = 0 then Fields_from 0 (cur @ [c]) cs
      else (if cur = [] then [] else [cur]) @ Fields_from (w - 1) [] cs)"

definition strings_Fields :: "string \<Rightarrow> string list" where
  "strings_Fields s = Fields_from 0 [] s"

text \<open>\<open>strings.Split(s, ".")[0]\<close>: the part before the first dot (all of \<open>s\<close> without one).\<close>

definition Split_dot_first :: "string \<Rightarrow> string" where
  "Split_dot_first s = takeWhile (\<lambda>c. c \<noteq> CHR ''.'') s"

section \<open>Buffered channels\<close>

text \<open>
  A buffered Go channel, \<open>make(chan T, cap)\<close>: the values waiting in it, oldest first, and
  its fixed capacity. The two operations are the \<open>select\<close> statements with a
  \<open>default\<close> branch that the program uses: they never wait.
\<close>

record 'a chan =
  buf :: "'a list"
  cap :: nat

definition make_chan :: "nat \<Rightarrow> 'a chan" where
  "make_chan n = \<lparr>buf = [], cap = n\<rparr>"

text \<open>\<open>select { case ch <- v: ...; default: ... }\<close>: \<open>None\<close> is the default branch.\<close>

definition chan_try_send :: "'a chan \<Rightarrow> 'a \<Rightarrow> 'a chan option" where
  "chan_try_send ch v =
     (if length (buf ch) < cap ch then Some (ch\<lparr>buf := buf ch @ [v]\<rparr>) else None)"

text \<open>\<open>select { case v := <-ch: ...; default: ... }\<close>: \<open>None\<close> is the default branch.\<close>

definition chan_try_recv :: "'a chan \<Rightarrow> ('a \<times> 'a chan) option" where
  "chan_try_recv ch =
     (case buf ch of [] \<Rightarrow> None | v # rest \<Rightarrow> Some (v, ch\<lparr>buf := rest\<rparr>))"

section \<open>The chat platform and the voice transport (external collaborators)\<close>

record VoiceState =
  UserID :: string
  VoiceState_ChannelID :: string

record Guild =
  Guild_ID :: string
  Guild_Name :: string
  VoiceStates :: "VoiceState list"

record Channel =
  Channel_ID :: string
  GuildID :: string

record MessageAttachment =
  URL :: string
  Filename :: string

record MessageCreate =
  Author_ID :: string
  Content :: string
  ChannelID :: string
  Attachments :: "MessageAttachment list"

text \<open>
  \<open>*discordgo.VoiceConnection\<close> as the program uses it. \<open>OpusSend\<close> holds the frames the
  program has sent into the channel of that name, oldest first. \<open>OpusSend_room\<close> says how
  many more sends the transport will take: \<open>None\<close> is a transport that keeps receiving,
  \<open>Some k\<close> one that stops receiving after \<open>k\<close> more frames (the connection is lost), so
  that a later send waits for ever.
\<close>

record VoiceConnection =
  vc_GuildID :: string
  vc_ChannelID :: string
  OpusSend :: "byte list list"
  OpusSend_room :: "nat option"
  speaking :: bool

text \<open>\<open>vc.OpusSend <- buff\<close>: \<open>None\<close> when the send cannot proceed.\<close>

definition OpusSend_send :: "VoiceConnection \<Rightarrow> byte list \<Rightarrow> VoiceConnection option" where
  "OpusSend_send vc buff =
     (case OpusSend_room vc of
        None \<Rightarrow> Some (vc\<lparr>OpusSend := OpusSend vc @ [buff]\<rparr>)
      | Some 0 \<Rightarrow> None
      | Some (Suc k) \<Rightarrow> Some (vc\<lparr>OpusSend := OpusSend vc @ [buff], OpusSend_room := Some k\<rparr>))"

text \<open>\<open>vc.Speaking(b)\<close>; its error result is ignored by the program.\<close>

definition Speaking :: "VoiceConnection \<Rightarrow> bool \<Rightarrow> VoiceConnection" where
  "Speaking vc b = vc\<lparr>speaking := b\<rparr>"

record MessageEmbedField =
  Field_Name :: string
  Field_Value :: string
  Inline :: bool

record MessageEmbed =
  Title :: string
  Color :: int
  Fields :: "MessageEmbedField list"

text \<open>What the program does to the outside, in the order it does it.\<close>

datatype operand = Str string | Num int | Err go_error

datatype event =
    Println "operand list"                    \<comment> \<open>\<open>fmt.Println\<close> of these operands\<close>
  | ChannelMessageSend string string          \<comment> \<open>channel, content\<close>
  | ChannelMessageSendEmbed string MessageEmbed
  | VoiceDisconnect string string             \<comment> \<open>\<open>vc.Disconnect()\<close> of the connection to guild, channel\<close>

text \<open>
  \<open>*discordgo.Session\<close> as the program uses it: the bot's own user, the state caches, and
  what the platform answers to a voice join and to an embed.
\<close>

record Session =
  State_User_ID :: string
  State_Channel :: "string \<Rightarrow> go_error + Channel"
  State_Guild :: "string \<Rightarrow> go_error + Guild"
  ChannelVoiceJoin :: "string \<Rightarrow> string \<Rightarrow> bool \<Rightarrow> bool \<Rightarrow> go_error + VoiceConnection"
  ChannelMessageSendEmbed_result :: "go_error option"

section \<open>Guild session and playback queue\<close>

record GuildSession =
  ID :: string
  GuildName :: string
  VoiceConnection :: VoiceConnection
  PlayQueue :: "VoiceMemo chan"
  IsVoicePlaying :: bool

text \<open>\<open>func (gs *GuildSession) Enqueue(voiceMemo *VoiceMemo)\<close>\<close>

definition Enqueue :: "GuildSession \<Rightarrow> VoiceMemo \<Rightarrow> GuildSession \<times> event list" where
  "Enqueue gs voiceMemo =
     (case chan_try_send (PlayQueue gs) voiceMemo of
        Some q \<Rightarrow> (gs\<lparr>PlayQueue := q\<rparr>, [])
      | None \<Rightarrow>
          (gs, [Println [Str ''Queue is currently full. Try again later. Queue count: '',
                         Num (int (length (buf (PlayQueue gs))))]]))"

text \<open>Successive calls of \<open>Enqueue\<close> on a session, with what they print.\<close>

fun Enqueue_all :: "GuildSession \<Rightarrow> VoiceMemo list \<Rightarrow> GuildSession \<times> event list" where
  "Enqueue_all gs [] = (gs, [])"
| "Enqueue_all gs (voiceMemo # rest) =
     (case Enqueue gs voiceMemo of
        (gs', ev) \<Rightarrow> (case Enqueue_all gs' rest of (gs'', ev') \<Rightarrow> (gs'', ev @ ev')))"

text \<open>
  The inner loop \<open>for _, buff := range dequeued.buffer { vc.OpusSend <- buff }\<close>: the
  connection after it, and whether every send went through.
\<close>

fun send_frames :: "VoiceConnection \<Rightarrow> byte list list \<Rightarrow> VoiceConnection \<times> bool" where
  "send_frames vc [] = (vc, True)"
| "send_frames vc (buff # rest) =
     (case OpusSend_send vc buff of
        None \<Rightarrow> (vc, False)
      | Some vc' \<Rightarrow> send_frames vc' rest)"

text \<open>
  The \<open>for { select { ... } }\<close> loop of \<open>PlayFromQueue\<close>. The pause of 100 ms after each
  clip has no effect on the state. On the default branch the flag is cleared and the
  deferred \<open>vc.Speaking(false)\<close> runs at the return.
\<close>

function PlayFromQueue_loop :: "GuildSession \<Rightarrow> GuildSession outcome" where
  "PlayFromQueue_loop gs =
     (case chan_try_recv (PlayQueue gs) of
        Some (dequeued, q) \<Rightarrow>
          (case send_frames (VoiceConnection gs) (buffer dequeued) of
             (vc', False) \<Rightarrow> Blocked (gs\<lparr>VoiceConnection := vc', PlayQueue := q\<rparr>)
           | (vc', True) \<Rightarrow> PlayFromQueue_loop (gs\<lparr>VoiceConnection := vc', PlayQueue := q\<rparr>))
      | None \<Rightarrow>
          Returned (gs\<lparr>IsVoicePlaying := False,
                       VoiceConnection := Speaking (VoiceConnection gs) False\<rparr>))"
  by pat_completeness auto
termination
proof (relation "measure (\<lambda>gs. length (buf (PlayQueue gs)))")
  show "wf (measure (\<lambda>gs. length (buf (PlayQueue gs))))" by simp
next
  fix gs :: GuildSession and x2 dequeued q x y and b :: bool
  assume "chan_try_recv (PlayQueue gs) = Some x2" "(dequeued, q) = x2"
  then have "length (buf q) < length (buf (PlayQueue gs))"
    by (auto simp: chan_try_recv_def split: list.splits)
  then show "(gs\<lparr>VoiceConnection := x, PlayQueue := q\<rparr>, gs)
      \<in> measure (\<lambda>gs. length (buf (PlayQueue gs)))"
    by simp
qed

declare PlayFromQueue_loop.simps [simp del]

text \<open>\<open>func (gs *GuildSession) PlayFromQueue()\<close>\<close>

definition PlayFromQueue :: "GuildSession \<Rightarrow> (GuildSession \<times> event list) outcome" where
  "PlayFromQueue gs =
     (if IsVoicePlaying gs
      then Returned (gs, [Println [Str ''Your voice memo is being added to the queue.'']])
      else (case PlayFromQueue_loop
                   (gs\<lparr>IsVoicePlaying := True,
                       VoiceConnection := Speaking (VoiceConnection gs) True\<rparr>) of
              Returned gs' \<Rightarrow> Returned (gs', [])
            | Blocked gs' \<Rightarrow> Blocked (gs', [])
            | Panicked p \<Rightarrow> Panicked p))"

text \<open>\<open>func (gs *GuildSession) Disconnect()\<close>\<close>

definition Disconnect :: "GuildSession \<Rightarrow> event list" where
  "Disconnect gs =
     [VoiceDisconnect (vc_GuildID (VoiceConnection gs)) (vc_ChannelID (VoiceConnection gs))]"


section \<open>Clip catalog: \<open>VoiceMemoManager\<close>\<close>

text \<open>
  \<open>Store map[string]*VoiceMemo\<close> as an association list with one entry per key. Go
  iterates over a map in an order of its own; each entry is loaded from its own file, so
  the loaded store does not depend on that order.
\<close>

record VoiceMemoManager =
  Store :: "(string \<times> VoiceMemo) list"

text \<open>\<open>m[k] = v\<close>\<close>

fun map_store :: "(string \<times> VoiceMemo) list \<Rightarrow> string \<Rightarrow> VoiceMemo \<Rightarrow> (string \<times> VoiceMemo) list" where
  "map_store [] k v = [(k, v)]"
| "map_store ((k', v') # rest) k v =
     (if k' = k then (k, v) # rest else (k', v') # map_store rest k v)"

text \<open>
  \<open>func NewVoiceMemoManager() (*VoiceMemoManager, error)\<close>, from what
  \<open>os.ReadDir("voicememo_files/")\<close> answers (the file names of the directory).
\<close>

definition NewVoiceMemoManager :: "go_error + string list \<Rightarrow> go_error + VoiceMemoManager" where
  "NewVoiceMemoManager readdir =
     (case readdir of
        Inl err \<Rightarrow> Inl err
      | Inr files \<Rightarrow>
          Inr \<lparr>Store = foldl (\<lambda>voiceMemoMap f.
                   map_store voiceMemoMap (Split_dot_first f)
                     \<lparr>name = Split_dot_first f, buffer = []\<rparr>) [] files\<rparr>)"

text \<open>The loop of \<open>LoadAll\<close>: the result of each \<open>voiceMemo.Load()\<close> is dropped.\<close>

fun LoadAll_range :: "filesystem \<Rightarrow> (string \<times> VoiceMemo) list \<Rightarrow> go_panic + (string \<times> VoiceMemo) list" where
  "LoadAll_range fs [] = Inr []"
| "LoadAll_range fs ((k, voiceMemo) # rest) =
     (case Load fs voiceMemo of
        Inl p \<Rightarrow> Inl p
      | Inr (voiceMemo', _) \<Rightarrow>
          (case LoadAll_range fs rest of
             Inl p \<Rightarrow> Inl p
           | Inr rest' \<Rightarrow> Inr ((k, voiceMemo') # rest')))"

text \<open>\<open>func (m *VoiceMemoManager) LoadAll() (err error)\<close>: it always returns \<open>nil\<close>.\<close>

definition LoadAll :: "filesystem \<Rightarrow> VoiceMemoManager \<Rightarrow> go_panic + (VoiceMemoManager \<times> go_error option)" where
  "LoadAll fs m =
     (case LoadAll_range fs (Store m) of
        Inl p \<Rightarrow> Inl p
      | Inr st \<Rightarrow> Inr (m\<lparr>Store := st\<rparr>, None))"

text \<open>\<open>func (m *VoiceMemoManager) Get(fileName string) *VoiceMemo\<close>; \<open>None\<close> is \<open>nil\<close>.\<close>

definition Get :: "VoiceMemoManager \<Rightarrow> string \<Rightarrow> VoiceMemo option" where
  "Get m fileName = map_of (Store m) fileName"

section \<open>Session registry and command handlers: \<open>Bot\<close>\<close>

record Bot =
  GuildSessions :: "string \<rightharpoonup> GuildSession"
  VoiceMemoManager :: VoiceMemoManager

definition NewBot :: "VoiceMemoManager \<Rightarrow> Bot" where
  "NewBot am = \<lparr>GuildSessions = Map.empty, VoiceMemoManager = am\<rparr>"

text \<open>The struct literal of \<open>HandleJoin\<close>: the queue holds 10 clips, the flag is false.\<close>

definition new_GuildSession :: "Guild \<Rightarrow> VoiceConnection \<Rightarrow> GuildSession" where
  "new_GuildSession g vc =
     \<lparr>ID = Guild_ID g, GuildName = Guild_Name g, VoiceConnection = vc,
      PlayQueue = make_chan 10, IsVoicePlaying = False\<rparr>"

text \<open>\<open>func (b *Bot) HandleJoin(s, g, c, m)\<close>\<close>

definition HandleJoin :: "Bot \<Rightarrow> Session \<Rightarrow> Guild \<Rightarrow> Channel \<Rightarrow> MessageCreate \<Rightarrow> Bot \<times> event list" where
  "HandleJoin b s g c m =
     (case GuildSessions b (Guild_ID g) of
        Some _ \<Rightarrow>
          (b, [Println [Str ''Already joined a voice channel in '', Str (Guild_Name g)],
               ChannelMessageSend (Channel_ID c)
                 (''I have already joined a voice channel in '' @ Guild_Name g)])
      | None \<Rightarrow>
          (case find (\<lambda>vs. UserID vs = Author_ID m) (VoiceStates g) of
             Some vs \<Rightarrow>
               (case ChannelVoiceJoin s (Guild_ID g) (VoiceState_ChannelID vs) False True of
                  Inl err \<Rightarrow>
                    (b, [Println [Str ''Attempting to join voice channel in '', Str (Guild_Name g)],
                         Println [Str ''Error joining voice channel:'', Err err]])
                | Inr vc \<Rightarrow>
                    (b\<lparr>GuildSessions := (GuildSessions b)(Guild_ID g \<mapsto> new_GuildSession g vc)\<rparr>,
                     [Println [Str ''Attempting to join voice channel in '', Str (Guild_Name g)],
                      Println [Str ''Creating new Guild session for '', Str (Guild_Name g)],
                      ChannelMessageSend (Channel_ID c) (''Hello '' @ Guild_Name g @ ''!'')]))
           | None \<Rightarrow>
               (b, [Println [Str ''Attempting to join voice channel in '', Str (Guild_Name g)],
                    ChannelMessageSend (Channel_ID c) ''You must join a voice channel first.''])))"

text \<open>\<open>func (b *Bot) HandleLeave(s, g)\<close>\<close>

definition HandleLeave :: "Bot \<Rightarrow> Session \<Rightarrow> Guild \<Rightarrow> Bot \<times> event list" where
  "HandleLeave b s g =
     (case GuildSessions b (Guild_ID g) of
        None \<Rightarrow> (b, [Println [Str ''Error finding guild session.'']])
      | Some gs \<Rightarrow>
          (b\<lparr>GuildSessions := (GuildSessions b)(Guild_ID g := None)\<rparr>, Disconnect gs))"

text \<open>
  \<open>func (b *Bot) HandlePlay(s, g, c, fileName)\<close>. The session is reached through a
  pointer, so what \<open>Enqueue\<close> and \<open>PlayFromQueue\<close> do to it is what the registry holds
  afterwards, also when the call never returns.
\<close>

definition HandlePlay :: "Bot \<Rightarrow> Session \<Rightarrow> Guild \<Rightarrow> Channel \<Rightarrow> string \<Rightarrow> (Bot \<times> event list) outcome" where
  "HandlePlay b s g c fileName =
     (case GuildSessions b (Guild_ID g) of
        None \<Rightarrow> Returned (b, [Println [Str ''Error finding guild session.'']])
      | Some gs \<Rightarrow>
          (case Get (VoiceMemoManager b) fileName of
             None \<Rightarrow>
               Returned (b, [Println [Str ''Cannot find '', Str fileName],
                             ChannelMessageSend (Channel_ID c) (''Cannot find '' @ fileName)])
           | Some voiceMemo \<Rightarrow>
               (case Enqueue gs voiceMemo of
                  (gs1, ev1) \<Rightarrow>
                    (case PlayFromQueue gs1 of
                       Returned (gs2, ev2) \<Rightarrow>
                         Returned (b\<lparr>GuildSessions := (GuildSessions b)(Guild_ID g \<mapsto> gs2)\<rparr>, ev1 @ ev2)
                     | Blocked (gs2, ev2) \<Rightarrow>
                         Blocked (b\<lparr>GuildSessions := (GuildSessions b)(Guild_ID g \<mapsto> gs2)\<rparr>, ev1 @ ev2)
                     | Panicked p \<Rightarrow> Panicked p))))"

text \<open>\<open>func (b *Bot) HandleList(s, c)\<close>\<close>

definition HandleList :: "Bot \<Rightarrow> Session \<Rightarrow> Channel \<Rightarrow> event list" where
  "HandleList b s c =
     ChannelMessageSendEmbed (Channel_ID c)
       \<lparr>Title = ''List of all voice memos'', Color = 65535,
        Fields = map (\<lambda>(k, v). \<lparr>Field_Name = [CHR 0xE2, CHR 0x80, CHR 0x8B],
                                 Field_Value = ''-'' @ name v, Inline = True\<rparr>)
                   (Store (VoiceMemoManager b))\<rparr>
     # (case ChannelMessageSendEmbed_result s of
          Some err \<Rightarrow> [Println [Err err]]
        | None \<Rightarrow> [])"

text \<open>
  What \<open>HandleUpload\<close> meets outside the program: the disk, the download, the creation of
  the two files, the copy, what the \<open>ffmpeg | dca\<close> pipeline writes into the converted
  file for the downloaded bytes, and the removal of the original.
\<close>

record World =
  files :: filesystem
  http_Get :: "string \<Rightarrow> go_error + byte list"
  os_Create :: "string \<Rightarrow> go_error option"
  io_Copy :: "go_error option"
  transcode :: "byte list \<Rightarrow> byte list"
  os_Remove :: "string \<Rightarrow> go_error option"

text \<open>
  \<open>func (b *Bot) HandleUpload(s, m)\<close>. The result of \<open>newVoiceMemo.Load()\<close> is dropped:
  the memo is stored and the success message sent whatever it was. The deferred
  \<open>os.Remove\<close> of the original runs last.
\<close>

definition HandleUpload :: "Bot \<Rightarrow> World \<Rightarrow> Session \<Rightarrow> MessageCreate \<Rightarrow> go_panic + (Bot \<times> World \<times> event list)" where
  "HandleUpload b w s m =
     (case Attachments m of
        [] \<Rightarrow> Inr (b, w, [ChannelMessageSend (ChannelID m) ''Please attach an audio file.''])
      | a # _ \<Rightarrow>
          (case http_Get w (URL a) of
             Inl err \<Rightarrow> Inr (b, w, [])
           | Inr body \<Rightarrow>
               (case os_Create w (''voicememo_files/'' @ Filename a) of
                  Some err \<Rightarrow> Inr (b, w, [])
                | None \<Rightarrow>
                    (case io_Copy w of
                       Some err \<Rightarrow>
                         Inr (b, w\<lparr>files := (files w)(''voicememo_files/'' @ Filename a \<mapsto>
                                      \<lparr>contents = [], close_result = None\<rparr>)\<rparr>, [])
                     | None \<Rightarrow>
                         (let fs1 = (files w)(''voicememo_files/'' @ Filename a \<mapsto>
                                      \<lparr>contents = body, close_result = None\<rparr>);
                              name' = Split_dot_first (Filename a)
                          in case os_Create w (dca_path name') of
                               Some err \<Rightarrow> Inr (b, w\<lparr>files := fs1\<rparr>, [])
                             | None \<Rightarrow>
                                 (let fs2 = fs1(dca_path name' \<mapsto>
                                              \<lparr>contents = transcode w body, close_result = None\<rparr>);
                                      fs3 = (case os_Remove w (''voicememo_files/'' @ Filename a) of
                                               None \<Rightarrow> fs2(''voicememo_files/'' @ Filename a := None)
                                             | Some err \<Rightarrow> fs2);
                                      removed = (case os_Remove w (''voicememo_files/'' @ Filename a) of
                                                   None \<Rightarrow> []
                                                 | Some err \<Rightarrow> [Println [Err err]])
                                  in case Load fs2 \<lparr>name = name', buffer = []\<rparr> of
                                       Inl p \<Rightarrow> Inl p
                                     | Inr (newVoiceMemo, _) \<Rightarrow>
                                         Inr (b\<lparr>VoiceMemoManager := (VoiceMemoManager b)
                                                  \<lparr>Store := map_store (Store (VoiceMemoManager b))
                                                              (name newVoiceMemo) newVoiceMemo\<rparr>\<rparr>,
                                              w\<lparr>files := fs3\<rparr>,
                                              ChannelMessageSend (ChannelID m)
                                                (''Successfully uploaded '' @ name')
                                              # removed)))))))"

section \<open>Command dispatcher\<close>

text \<open>
  \<open>func (b *Bot) CommandCenter(s, m)\<close>. \<open>args[0]\<close> and \<open>args[1]\<close> index the fields of the
  message without a check of their number; Go panics when the index is out of range.
\<close>

definition CommandCenter :: "Bot \<Rightarrow> World \<Rightarrow> Session \<Rightarrow> MessageCreate \<Rightarrow> (Bot \<times> World \<times> event list) outcome" where
  "CommandCenter b w s m =
     (if Author_ID m = State_User_ID s then Returned (b, w, [])
      else
        (case State_Channel s (ChannelID m) of
           Inl err \<Rightarrow> Returned (b, w, [Println [Str ''Message: '', Str (Content m)]])
         | Inr c \<Rightarrow>
             (case State_Guild s (GuildID c) of
                Inl err \<Rightarrow> Returned (b, w, [Println [Str ''Message: '', Str (Content m)]])
              | Inr g \<Rightarrow>
                  if \<not> strings_HasPrefix (Content m) ''!''
                  then Returned (b, w, [Println [Str ''Message: '', Str (Content m)]])
                  else
                    (let args = strings_Fields (Content m);
                         ev0 = [Println [Str ''Message: '', Str (Content m)]]
                     in if length args < 1 then Panicked (IndexOutOfRange 0 (length args))
                        else
                          (let command = strings_TrimPrefix (args ! 0) ''!''
                           in if command = ''join'' then
                                (case HandleJoin b s g c m of (b', ev) \<Rightarrow> Returned (b', w, ev0 @ ev))
                              else if command = ''leave'' then
                                (case HandleLeave b s g of (b', ev) \<Rightarrow> Returned (b', w, ev0 @ ev))
                              else if command = ''play'' then
                                (if length args < 2 then Panicked (IndexOutOfRange 1 (length args))
                                 else
                                   (case HandlePlay b s g c (strings_TrimPrefix (args ! 1) ''-'') of
                                      Returned (b', ev) \<Rightarrow> Returned (b', w, ev0 @ ev)
                                    | Blocked (b', ev) \<Rightarrow> Blocked (b', w, ev0 @ ev)
                                    | Panicked p \<Rightarrow> Panicked p))
                              else if command = ''list'' then
                                Returned (b, w, ev0 @ HandleList b s c)
                              else if command = ''upload'' then
                                (case HandleUpload b w s m of
                                   Inl p \<Rightarrow> Panicked p
                                 | Inr (b', w', ev) \<Rightarrow> Returned (b', w', ev0 @ ev))
                              else if command = ''record'' then Returned (b, w, ev0)
                              else
                                Returned (b, w, ev0 @ [ChannelMessageSend (Channel_ID c)
                                                         ''Unrecognizable command, dummy...'']))))))"


section \<open>Start of the program\<close>

text \<open>
  The part of \<open>main\<close> that builds the catalog and the bot: \<open>None\<close> when \<open>main\<close> returns
  because the directory cannot be read. The result of \<open>LoadAll\<close> is not looked at.
\<close>

definition main_startup :: "go_error + string list \<Rightarrow> filesystem \<Rightarrow> go_panic + Bot option" where
  "main_startup readdir fs =
     (case NewVoiceMemoManager readdir of
        Inl err \<Rightarrow> Inr None
      | Inr voiceMemoManager \<Rightarrow>
          (case LoadAll fs voiceMemoManager of
             Inl p \<Rightarrow> Inl p
           | Inr (voiceMemoManager', _) \<Rightarrow> Inr (Some (NewBot voiceMemoManager'))))"

section \<open>Concurrent calls of \<open>PlayFromQueue\<close>\<close>

text \<open>
  The platform library runs each handler in a goroutine of its own, so several calls of
  \<open>PlayFromQueue\<close> on one session can be under way at once. Each call is a sequence of
  atomic actions on the shared session; a program counter says which action of
  \<open>PlayFromQueue\<close> the call does next.
\<close>

datatype pc =
    At_Load                       \<comment> \<open>\<open>if gs.IsVoicePlaying.Load()\<close>\<close>
  | At_Store_true                 \<comment> \<open>\<open>gs.IsVoicePlaying.Store(true)\<close>\<close>
  | At_Speaking_true              \<comment> \<open>\<open>vc.Speaking(true)\<close>\<close>
  | At_select                     \<comment> \<open>\<open>select { case dequeued := <-gs.PlayQueue: ... default: ... }\<close>\<close>
  | At_send "byte list list"      \<comment> \<open>\<open>vc.OpusSend <- buff\<close> for the frames still to send\<close>
  | At_Sleep                      \<comment> \<open>\<open>time.Sleep(100 * time.Millisecond)\<close>\<close>
  | At_Store_false                \<comment> \<open>\<open>gs.IsVoicePlaying.Store(false)\<close>\<close>
  | At_return                     \<comment> \<open>\<open>return\<close>, running the deferred \<open>vc.Speaking(false)\<close>\<close>
  | Finished

text \<open>One atomic action of a call on the shared session. A send that cannot proceed waits.\<close>

fun thread_step :: "pc \<Rightarrow> GuildSession \<Rightarrow> pc \<times> GuildSession" where
  "thread_step At_Load gs = (if IsVoicePlaying gs then (Finished, gs) else (At_Store_true, gs))"
| "thread_step At_Store_true gs = (At_Speaking_true, gs\<lparr>IsVoicePlaying := True\<rparr>)"
| "thread_step At_Speaking_true gs =
     (At_select, gs\<lparr>VoiceConnection := Speaking (VoiceConnection gs) True\<rparr>)"
| "thread_step At_select gs =
     (case chan_try_recv (PlayQueue gs) of
        Some (dequeued, q) \<Rightarrow> (At_send (buffer dequeued), gs\<lparr>PlayQueue := q\<rparr>)
      | None \<Rightarrow> (At_Store_false, gs))"
| "thread_step (At_send []) gs = (At_Sleep, gs)"
| "thread_step (At_send (buff # rest)) gs =
     (case OpusSend_send (VoiceConnection gs) buff of
        None \<Rightarrow> (At_send (buff # rest), gs)
      | Some vc' \<Rightarrow> (At_send rest, gs\<lparr>VoiceConnection := vc'\<rparr>))"
| "thread_step At_Sleep gs = (At_select, gs)"
| "thread_step At_Store_false gs = (At_return, gs\<lparr>IsVoicePlaying := False\<rparr>)"
| "thread_step At_return gs =
     (Finished, gs\<lparr>VoiceConnection := Speaking (VoiceConnection gs) False\<rparr>)"
| "thread_step Finished gs = (Finished, gs)"

record system =
  session :: GuildSession
  threads :: "pc list"

text \<open>The call number \<open>i\<close> does its next action.\<close>

definition step :: "nat \<Rightarrow> system \<Rightarrow> system" where
  "step i sys =
     (if i < length (threads sys)
      then (case thread_step (threads sys ! i) (session sys) of
              (pc', gs') \<Rightarrow> \<lparr>session = gs', threads = (threads sys)[i := pc']\<rparr>)
      else sys)"

text \<open>A schedule names the call that acts at each moment.\<close>

definition run :: "nat list \<Rightarrow> system \<Rightarrow> system" where
  "run schedule sys = foldl (\<lambda>sys i. step i sys) sys schedule"

text \<open>
  A call owns the drain from its \<open>Store(true)\<close> until its \<open>Store(false)\<close>.
\<close>

fun in_drain :: "pc \<Rightarrow> bool" where
  "in_drain At_Speaking_true = True"
| "in_drain At_select = True"
| "in_drain (At_send _) = True"
| "in_drain At_Sleep = True"
| "in_drain At_Store_false = True"
| "in_drain _ = False"

definition drain_owners :: "system \<Rightarrow> nat" where
  "drain_owners sys = length (filter in_drain (threads sys))"

text \<open>\<open>n\<close> concurrent triggers on a session, none of them started yet.\<close>

definition triggers :: "nat \<Rightarrow> GuildSession \<Rightarrow> system" where
  "triggers n gs = \<lparr>session = gs, threads = replicate n At_Load\<rparr>"


section \<open>Earlier revisions of \<open>HandleJoin\<close>\<close>

text \<open>
  The repository holds two earlier revisions of the program as well. Their guild session
  is \<open>{ID, GuildName, Session}\<close>, without queue and flag, and their \<open>HandleJoin\<close>
  stores it at another place of the function. The \<open>Session\<close> field points to the
  platform session and is left out.
\<close>

record GuildSession_old =
  old_ID :: string
  old_GuildName :: string

text \<open>
  The oldest revision stores the session right after the test for an existing one, and
  then joins the channel of every voice state of the sender until a join fails. It sends
  nothing to the text channel.
\<close>

fun join_loop_part_000 :: "Session \<Rightarrow> Guild \<Rightarrow> MessageCreate \<Rightarrow> VoiceState list \<Rightarrow> event list" where
  "join_loop_part_000 s g m [] = []"
| "join_loop_part_000 s g m (vs # rest) =
     (if UserID vs = Author_ID m
      then (case ChannelVoiceJoin s (Guild_ID g) (VoiceState_ChannelID vs) False True of
              Inl err \<Rightarrow> [Println [Str ''Error joining voice channel:'', Err err]]
            | Inr vc \<Rightarrow> join_loop_part_000 s g m rest)
      else join_loop_part_000 s g m rest)"

definition HandleJoin_part_000 :: "(string \<rightharpoonup> GuildSession_old) \<Rightarrow> Session \<Rightarrow> Guild \<Rightarrow> Channel \<Rightarrow> MessageCreate \<Rightarrow> (string \<rightharpoonup> GuildSession_old) \<times> event list" where
  "HandleJoin_part_000 sessions s g c m =
     (case sessions (Guild_ID g) of
        Some _ \<Rightarrow>
          (sessions, [Println [Str ''Already joined a voice channel in '', Str (Guild_Name g)],
                      ChannelMessageSend (Channel_ID c)
                        (''I have already joined a voice channel in '' @ Guild_Name g)])
      | None \<Rightarrow>
          (sessions(Guild_ID g \<mapsto> \<lparr>old_ID = Guild_ID g, old_GuildName = Guild_Name g\<rparr>),
           [Println [Str ''Creating new Guild session for: '', Str (Guild_Name g)],
            Println [Str ''Attempting to join voice channel in '', Str (Guild_Name g)]]
           @ join_loop_part_000 s g m (VoiceStates g)))"

text \<open>
  The revision in \<open>main.go\<close> stores the session once the sender is found in a voice
  channel, before the voice join.
\<close>

definition HandleJoin_main_go :: "(string \<rightharpoonup> GuildSession_old) \<Rightarrow> Session \<Rightarrow> Guild \<Rightarrow> Channel \<Rightarrow> MessageCreate \<Rightarrow> (string \<rightharpoonup> GuildSession_old) \<times> event list" where
  "HandleJoin_main_go sessions s g c m =
     (case sessions (Guild_ID g) of
        Some _ \<Rightarrow>
          (sessions, [Println [Str ''Already joined a voice channel in '', Str (Guild_Name g)],
                      ChannelMessageSend (Channel_ID c)
                        (''I have already joined a voice channel in '' @ Guild_Name g)])
      | None \<Rightarrow>
          (case find (\<lambda>vs. UserID vs = Author_ID m) (VoiceStates g) of
             Some vs \<Rightarrow>
               (sessions(Guild_ID g \<mapsto> \<lparr>old_ID = Guild_ID g, old_GuildName = Guild_Name g\<rparr>),
                [Println [Str ''Attempting to join voice channel in '', Str (Guild_Name g)],
                 Println [Str ''Creating new Guild session for '', Str (Guild_Name g)]]
                @ (case ChannelVoiceJoin s (Guild_ID g) (VoiceState_ChannelID vs) False True of
                     Inl err \<Rightarrow> [Println [Str ''Error joining voice channel:'', Err err]]
                   | Inr vc \<Rightarrow>
                       [ChannelMessageSend (Channel_ID c) (''Hello '' @ Guild_Name g @ ''!'')]))
           | None \<Rightarrow>
               (sessions,
                [Println [Str ''Attempting to join voice channel in '', Str (Guild_Name g)],
                 ChannelMessageSend (Channel_ID c) ''You must join a voice channel first.''])))"

section \<open>Concrete inputs\<close>

text \<open>
  A guild with one member, alice, in its voice channel; a text channel of that guild; a
  voice connection whose transport keeps receiving; and a platform session that knows
  the guild and the channel and grants every voice join.
\<close>

definition guild0 :: Guild where
  "guild0 = \<lparr>Guild_ID = ''g'', Guild_Name = ''Guild'',
             VoiceStates = [\<lparr>UserID = ''alice'', VoiceState_ChannelID = ''voice''\<rparr>]\<rparr>"

definition channel0 :: Channel where
  "channel0 = \<lparr>Channel_ID = ''text'', GuildID = ''g''\<rparr>"

definition vc0 :: VoiceConnection where
  "vc0 = \<lparr>vc_GuildID = ''g'', vc_ChannelID = ''voice'', OpusSend = [],
          OpusSend_room = None, speaking = False\<rparr>"

definition session0 :: Session where
  "session0 =
     \<lparr>State_User_ID = ''bot'',
      State_Channel = (\<lambda>i. if i = ''text'' then Inr channel0 else Inl (ErrOther ''state cache miss'')),
      State_Guild = (\<lambda>i. if i = ''g'' then Inr guild0 else Inl (ErrOther ''state cache miss'')),
      ChannelVoiceJoin = (\<lambda>gID cID mute deaf. Inr (vc0\<lparr>vc_GuildID := gID, vc_ChannelID := cID\<rparr>)),
      ChannelMessageSendEmbed_result = None\<rparr>"

definition message0 :: "string \<Rightarrow> string \<Rightarrow> MessageCreate" where
  "message0 author content =
     \<lparr>Author_ID = author, Content = content, ChannelID = ''text'', Attachments = []\<rparr>"

definition bot0 :: Bot where
  "bot0 = NewBot \<lparr>Store = []\<rparr>"

definition world0 :: World where
  "world0 =
     \<lparr>files = Map.empty, http_Get = (\<lambda>url. Inl (ErrOther ''no network'')),
      os_Create = (\<lambda>path. None), io_Copy = None, transcode = (\<lambda>body. body),
      os_Remove = (\<lambda>path. None)\<rparr>"

text \<open>
  Two clips, a catalog that holds them, and a bot whose tenant has joined: over a
  connection that keeps receiving, and over one that takes one more frame.
\<close>

definition clip_a :: VoiceMemo where
  "clip_a = \<lparr>name = ''a'', buffer = [[1], [2]]\<rparr>"

definition clip_b :: VoiceMemo where
  "clip_b = \<lparr>name = ''b'', buffer = [[3]]\<rparr>"




text \<open>
  A container that breaks off inside its second record (one complete frame, then a
  length of 2 with one payload byte); a disk that holds it as \<open>x.dca\<close>; and an upload of
  \<open>x.mp3\<close> for which the conversion pipeline writes that container.
\<close>

definition broken_container :: "byte list" where
  "broken_container = [1, 0, 9, 2, 0, 1]"

definition broken_disk :: filesystem where
  "broken_disk = [dca_path ''x'' \<mapsto> \<lparr>contents = broken_container, close_result = None\<rparr>]"

definition upload_world :: World where
  "upload_world = world0\<lparr>http_Get := \<lambda>url. Inr [0], transcode := \<lambda>body. broken_container\<rparr>"

definition upload_message :: MessageCreate where
  "upload_message =
     \<lparr>Author_ID = ''alice'', Content = ''!upload'', ChannelID = ''text'',
      Attachments = [\<lparr>URL = ''https://cdn/x.mp3'', Filename = ''x.mp3''\<rparr>]\<rparr>"

section \<open>Frame codec: proofs\<close>

lemma nat_mod_div_256: "(n::nat) mod 256 = take_bit 8 n" "n div 256 = drop_bit 8 n"
  by (simp_all add: take_bit_eq_mod drop_bit_eq_div)

lemma LittleEndian_int16_le16:
  "LittleEndian_int16 (of_nat (n mod 256)) (of_nat (n div 256 mod 256)) = of_nat n"
  unfolding LittleEndian_int16_def nat_mod_div_256
  by (rule bit_word_eqI) (auto simp: bit_simps bit_of_nat_iff bit_take_bit_iff bit_drop_bit_eq)

lemma sint_of_nat16: "sint (of_nat n :: 16 word) = signed_take_bit 15 (int n)"
  using sint_sbintrunc' [where 'a = 16, of "int n"] by simp

lemma sint_of_nat16_small:
  assumes "n < 32768"
  shows "sint (of_nat n :: 16 word) = int n"
  unfolding sint_of_nat16 by (rule signed_take_bit_int_eq_self) (use assms in simp_all)

lemma sint_of_nat16_big:
  assumes "32768 \<le> n" "n < 65536"
  shows "sint (of_nat n :: 16 word) < 0"
proof -
  have "signed_take_bit 15 (int n) \<le> int n - 2 ^ Suc 15"
    by (rule signed_take_bit_int_less_eq) (use assms in simp)
  then have "signed_take_bit 15 (int n) \<le> int n - 65536" by simp
  with assms have "signed_take_bit 15 (int n) < 0" by linarith
  then show ?thesis by (simp only: sint_of_nat16)
qed

lemma binary_Read_int16_le16: "binary_Read_int16 (le16 n @ rest) = Inr (of_nat n, rest)"
  using LittleEndian_int16_le16 [of n]
  by (simp add: binary_Read_int16_def io_ReadFull_def le16_def)



lemma binary_Read_bytes_full: "binary_Read_bytes (fr @ rest) (length fr) = Inr (fr, rest)"
  by (simp add: binary_Read_bytes_def io_ReadFull_def)

lemma binary_Read_bytes_short:
  "length p < n \<Longrightarrow> binary_Read_bytes p n = Inl (if p = [] then EOF else ErrUnexpectedEOF)"
  by (simp add: binary_Read_bytes_def io_ReadFull_def)

text \<open>One complete record with a length below \<open>2^15\<close> adds its payload as a frame.\<close>

lemma Load_loop_record:
  assumes "length fr < 32768"
  shows "Load_loop f (le16 (length fr) @ fr @ rest) vm
       = Load_loop f rest (vm\<lparr>buffer := buffer vm @ [fr]\<rparr>)"
  using assms
  by (subst Load_loop.simps)
     (simp add: binary_Read_int16_le16 sint_of_nat16_small binary_Read_bytes_full)

lemma Load_loop_encode_frames:
  assumes "\<forall>fr\<in>set frs. length fr < 32768"
  shows "Load_loop f (encode_frames frs @ rest) vm
       = Load_loop f rest (vm\<lparr>buffer := buffer vm @ frs\<rparr>)"
  using assms
proof (induction frs arbitrary: vm)
  case Nil
  then show ?case by simp
next
  case (Cons fr frs)
  then show ?case by (simp add: Load_loop_record)
qed



lemma Load_loop_short_payload:
  assumes "n < 32768" "length p < n"
  shows "Load_loop f (le16 n @ p) vm = Inr (vm, Some (if p = [] then EOF else ErrUnexpectedEOF))"
  using assms
  by (subst Load_loop.simps)
     (simp add: binary_Read_int16_le16 sint_of_nat16_small binary_Read_bytes_short)

lemma Load_loop_negative_length:
  assumes "32768 \<le> n" "n < 65536"
  shows "Load_loop f (le16 n @ rest) vm = Inl MakesliceLenOutOfRange"
  using assms
  by (subst Load_loop.simps) (simp add: binary_Read_int16_le16 sint_of_nat16_big)

lemma Load_open:
  "fs (dca_path (name vm)) = Some f \<Longrightarrow> Load fs vm = Load_loop f (contents f) vm"
  by (simp add: Load_def os_Open_def)

lemma Load_encode_frames:
  assumes "\<forall>fr\<in>set frs. length fr < 32768"
    and "fs (dca_path (name vm)) = Some f"
    and "contents f = encode_frames frs @ rest"
  shows "Load fs vm = Load_loop f rest (vm\<lparr>buffer := buffer vm @ frs\<rparr>)"
  using assms by (simp add: Load_open Load_loop_encode_frames)







text \<open>
  Claim C5 at its failing input: a file whose first length field is \<open>0x8000\<close> (bytes
  \<open>00 80\<close>, the high bit set). The \<open>int16\<close> reads as -32768 and \<open>make([]byte, opuslen)\<close>
  panics, so \<open>Load\<close> returns neither frames nor an error.
\<close>

theorem Load_high_bit_length_panics:
  "Load [dca_path ''a'' \<mapsto> \<lparr>contents = [0x00, 0x80], close_result = None\<rparr>]
        \<lparr>name = ''a'', buffer = []\<rparr>
   = Inl MakesliceLenOutOfRange"
  using Load_loop_negative_length [of 32768 "\<lparr>contents = [0x00, 0x80], close_result = None\<rparr>" "[]"]
  by (simp add: Load_def os_Open_def le16_def)

section \<open>Playback queue: proofs\<close>

lemma Enqueue_room:
  assumes "length (buf (PlayQueue gs)) < cap (PlayQueue gs)"
  shows "Enqueue gs c = (gs\<lparr>PlayQueue := (PlayQueue gs)\<lparr>buf := buf (PlayQueue gs) @ [c]\<rparr>\<rparr>, [])"
  using assms by (simp add: Enqueue_def chan_try_send_def)

lemma Enqueue_full:
  assumes "length (buf (PlayQueue gs)) = cap (PlayQueue gs)"
  shows "Enqueue gs c =
    (gs, [Println [Str ''Queue is currently full. Try again later. Queue count: '',
                   Num (int (cap (PlayQueue gs)))]])"
  using assms by (simp add: Enqueue_def chan_try_send_def)

lemma Enqueue_all_room:
  assumes "length (buf (PlayQueue gs)) + length clips \<le> cap (PlayQueue gs)"
  shows "Enqueue_all gs clips
       = (gs\<lparr>PlayQueue := (PlayQueue gs)\<lparr>buf := buf (PlayQueue gs) @ clips\<rparr>\<rparr>, [])"
  using assms
proof (induction clips arbitrary: gs)
  case Nil
  then show ?case by simp
next
  case (Cons c clips)
  then show ?case by (simp add: Enqueue_room)
qed

text \<open>
  Claim C2. On a session whose queue is the empty channel of capacity 10 that
  \<open>HandleJoin\<close> makes, ten calls of \<open>Enqueue\<close> return (they cannot wait), print nothing
  and leave the ten clips in the queue in the order of the calls, the first one being the
  next to be received; an eleventh call returns too, prints the line "Queue is currently
  full" with the count 10, which is the only sign of the rejection that \<open>Enqueue\<close> gives,
  and leaves the session, so the ten entries, as they were.
\<close>

theorem Enqueue_eleventh_rejected:
  assumes "PlayQueue gs = make_chan 10" and "length clips = 10"
  shows "Enqueue_all gs clips = (gs\<lparr>PlayQueue := \<lparr>buf = clips, cap = 10\<rparr>\<rparr>, [])
       \<and> chan_try_recv (PlayQueue (fst (Enqueue_all gs clips)))
           = Some (hd clips, \<lparr>buf = tl clips, cap = 10\<rparr>)
       \<and> Enqueue (fst (Enqueue_all gs clips)) c
           = (fst (Enqueue_all gs clips),
              [Println [Str ''Queue is currently full. Try again later. Queue count: '', Num 10]])"
proof -
  have all: "Enqueue_all gs clips = (gs\<lparr>PlayQueue := \<lparr>buf = clips, cap = 10\<rparr>\<rparr>, [])"
    using Enqueue_all_room [of gs clips] assms by (simp add: make_chan_def)
  have "clips \<noteq> []" using assms(2) by auto
  then have recv: "chan_try_recv \<lparr>buf = clips, cap = 10\<rparr> = Some (hd clips, \<lparr>buf = tl clips, cap = 10\<rparr>)"
    by (cases clips) (simp_all add: chan_try_recv_def)
  have full: "Enqueue (gs\<lparr>PlayQueue := \<lparr>buf = clips, cap = 10\<rparr>\<rparr>) c
      = (gs\<lparr>PlayQueue := \<lparr>buf = clips, cap = 10\<rparr>\<rparr>,
         [Println [Str ''Queue is currently full. Try again later. Queue count: '', Num 10]])"
    using Enqueue_full [of "gs\<lparr>PlayQueue := \<lparr>buf = clips, cap = 10\<rparr>\<rparr>" c] assms(2) by simp
  show ?thesis by (simp add: all recv full)
qed

theorem Enqueue_eleventh_rejected_witness:
  "PlayQueue (new_GuildSession guild0 vc0) = make_chan 10
   \<and> length (map (\<lambda>i. \<lparr>name = [i], buffer = []\<rparr>) ''abcdefghij'') = 10
   \<and> Enqueue_all (new_GuildSession guild0 vc0) (map (\<lambda>i. \<lparr>name = [i], buffer = []\<rparr>) ''abcdefghij'')
       = ((new_GuildSession guild0 vc0)
            \<lparr>PlayQueue := \<lparr>buf = map (\<lambda>i. \<lparr>name = [i], buffer = []\<rparr>) ''abcdefghij'',
                           cap = 10\<rparr>\<rparr>, [])
   \<and> Enqueue (fst (Enqueue_all (new_GuildSession guild0 vc0)
                     (map (\<lambda>i. \<lparr>name = [i], buffer = []\<rparr>) ''abcdefghij'')))
             \<lparr>name = ''k'', buffer = []\<rparr>
       = (fst (Enqueue_all (new_GuildSession guild0 vc0)
                 (map (\<lambda>i. \<lparr>name = [i], buffer = []\<rparr>) ''abcdefghij'')),
          [Println [Str ''Queue is currently full. Try again later. Queue count: '', Num 10]])"
proof -
  have h1: "PlayQueue (new_GuildSession guild0 vc0) = make_chan 10"
    by (simp add: new_GuildSession_def)
  have h2: "length (map (\<lambda>i. \<lparr>name = [i], buffer = []\<rparr>) ''abcdefghij'') = 10"
    by simp
  show ?thesis
    using h1 h2 Enqueue_eleventh_rejected [OF h1 h2, of "\<lparr>name = ''k'', buffer = []\<rparr>"]
    by blast
qed

section \<open>Session registry: proofs\<close>

lemma HandleJoin_AlreadyJoined:
  assumes "GuildSessions b (Guild_ID g) = Some gs"
  shows "HandleJoin b s g c m =
    (b, [Println [Str ''Already joined a voice channel in '', Str (Guild_Name g)],
         ChannelMessageSend (Channel_ID c)
           (''I have already joined a voice channel in '' @ Guild_Name g)])"
  using assms by (simp add: HandleJoin_def)

lemma HandleJoin_success:
  assumes "GuildSessions b (Guild_ID g) = None"
    and "find (\<lambda>vs. UserID vs = Author_ID m) (VoiceStates g) = Some vs"
    and "ChannelVoiceJoin s (Guild_ID g) (VoiceState_ChannelID vs) False True = Inr vc"
  shows "HandleJoin b s g c m =
    (b\<lparr>GuildSessions := (GuildSessions b)(Guild_ID g \<mapsto> new_GuildSession g vc)\<rparr>,
     [Println [Str ''Attempting to join voice channel in '', Str (Guild_Name g)],
      Println [Str ''Creating new Guild session for '', Str (Guild_Name g)],
      ChannelMessageSend (Channel_ID c) (''Hello '' @ Guild_Name g @ ''!'')])"
  using assms by (simp add: HandleJoin_def)

lemma HandleJoin_NotInVoice:
  assumes "GuildSessions b (Guild_ID g) = None"
    and "find (\<lambda>vs. UserID vs = Author_ID m) (VoiceStates g) = None"
  shows "HandleJoin b s g c m =
    (b, [Println [Str ''Attempting to join voice channel in '', Str (Guild_Name g)],
         ChannelMessageSend (Channel_ID c) ''You must join a voice channel first.''])"
  using assms by (simp add: HandleJoin_def)

lemma HandleJoin_join_error:
  assumes "GuildSessions b (Guild_ID g) = None"
    and "find (\<lambda>vs. UserID vs = Author_ID m) (VoiceStates g) = Some vs"
    and "ChannelVoiceJoin s (Guild_ID g) (VoiceState_ChannelID vs) False True = Inl err"
  shows "HandleJoin b s g c m =
    (b, [Println [Str ''Attempting to join voice channel in '', Str (Guild_Name g)],
         Println [Str ''Error joining voice channel:'', Err err]])"
  using assms by (simp add: HandleJoin_def)

lemma HandleLeave_NotJoined:
  assumes "GuildSessions b (Guild_ID g) = None"
  shows "HandleLeave b s g = (b, [Println [Str ''Error finding guild session.'']])"
  using assms by (simp add: HandleLeave_def)

lemma HandleLeave_joined:
  assumes "GuildSessions b (Guild_ID g) = Some gs"
  shows "HandleLeave b s g =
    (b\<lparr>GuildSessions := (GuildSessions b)(Guild_ID g := None)\<rparr>,
     [VoiceDisconnect (vc_GuildID (VoiceConnection gs)) (vc_ChannelID (VoiceConnection gs))])"
  using assms by (simp add: HandleLeave_def Disconnect_def)

text \<open>
  Claim C7. Take a tenant without a session, a sender who is in one of its voice
  channels, and a platform that grants the voice join. The first \<open>join\<close> stores a new
  session and greets; a second \<open>join\<close> right after it answers "I have already joined"
  and leaves the bot as it is; \<open>leave\<close> then calls \<open>Disconnect\<close> on the connection of
  the session and removes the entry, giving back the registry from before the first
  join; and a \<open>join\<close> after that does again what the first one did. A \<open>leave\<close> for a
  tenant without a session returns, prints "Error finding guild session." and leaves the
  bot as it is.
\<close>

theorem join_join_leave_join:
  assumes "GuildSessions b (Guild_ID g) = None"
    and "find (\<lambda>vs. UserID vs = Author_ID m) (VoiceStates g) = Some vs"
    and "ChannelVoiceJoin s (Guild_ID g) (VoiceState_ChannelID vs) False True = Inr vc"
  shows "HandleJoin b s g c m =
           (b\<lparr>GuildSessions := (GuildSessions b)(Guild_ID g \<mapsto> new_GuildSession g vc)\<rparr>,
            [Println [Str ''Attempting to join voice channel in '', Str (Guild_Name g)],
             Println [Str ''Creating new Guild session for '', Str (Guild_Name g)],
             ChannelMessageSend (Channel_ID c) (''Hello '' @ Guild_Name g @ ''!'')])
       \<and> HandleJoin (fst (HandleJoin b s g c m)) s g c m =
           (fst (HandleJoin b s g c m),
            [Println [Str ''Already joined a voice channel in '', Str (Guild_Name g)],
             ChannelMessageSend (Channel_ID c)
               (''I have already joined a voice channel in '' @ Guild_Name g)])
       \<and> HandleLeave (fst (HandleJoin b s g c m)) s g =
           (b, [VoiceDisconnect (vc_GuildID vc) (vc_ChannelID vc)])
       \<and> HandleJoin (fst (HandleLeave (fst (HandleJoin b s g c m)) s g)) s g c m =
           HandleJoin b s g c m
       \<and> HandleLeave b s g = (b, [Println [Str ''Error finding guild session.'']])"
proof -
  let ?b1 = "b\<lparr>GuildSessions := (GuildSessions b)(Guild_ID g \<mapsto> new_GuildSession g vc)\<rparr>"
  have j1: "HandleJoin b s g c m =
      (?b1, [Println [Str ''Attempting to join voice channel in '', Str (Guild_Name g)],
             Println [Str ''Creating new Guild session for '', Str (Guild_Name g)],
             ChannelMessageSend (Channel_ID c) (''Hello '' @ Guild_Name g @ ''!'')])"
    using assms by (rule HandleJoin_success)
  have s1: "GuildSessions ?b1 (Guild_ID g) = Some (new_GuildSession g vc)" by simp
  have j2: "HandleJoin ?b1 s g c m =
      (?b1, [Println [Str ''Already joined a voice channel in '', Str (Guild_Name g)],
             ChannelMessageSend (Channel_ID c)
               (''I have already joined a voice channel in '' @ Guild_Name g)])"
    using s1 by (rule HandleJoin_AlreadyJoined)
  have "(GuildSessions b)(Guild_ID g := None) = GuildSessions b"
    using assms(1) by (simp add: fun_upd_idem)
  then have l1: "HandleLeave ?b1 s g = (b, [VoiceDisconnect (vc_GuildID vc) (vc_ChannelID vc)])"
    using HandleLeave_joined [OF s1, of s] by (simp add: new_GuildSession_def)
  have l0: "HandleLeave b s g = (b, [Println [Str ''Error finding guild session.'']])"
    using assms(1) by (rule HandleLeave_NotJoined)
  show ?thesis
    unfolding j1 fst_conv j2 l1 l0 by simp
qed

theorem join_join_leave_join_witness:
  "GuildSessions bot0 (Guild_ID guild0) = None
   \<and> find (\<lambda>vs. UserID vs = Author_ID (message0 ''alice'' ''!join'')) (VoiceStates guild0)
       = Some \<lparr>UserID = ''alice'', VoiceState_ChannelID = ''voice''\<rparr>
   \<and> ChannelVoiceJoin session0 (Guild_ID guild0)
        (VoiceState_ChannelID \<lparr>UserID = ''alice'', VoiceState_ChannelID = ''voice''\<rparr>) False True
       = Inr vc0
   \<and> HandleJoin bot0 session0 guild0 channel0 (message0 ''alice'' ''!join'') =
       (bot0\<lparr>GuildSessions := (GuildSessions bot0)(''g'' \<mapsto> new_GuildSession guild0 vc0)\<rparr>,
        [Println [Str ''Attempting to join voice channel in '', Str ''Guild''],
         Println [Str ''Creating new Guild session for '', Str ''Guild''],
         ChannelMessageSend ''text'' ''Hello Guild!''])
   \<and> HandleLeave (fst (HandleJoin bot0 session0 guild0 channel0 (message0 ''alice'' ''!join'')))
        session0 guild0
       = (bot0, [VoiceDisconnect ''g'' ''voice''])"
proof -
  have h1: "GuildSessions bot0 (Guild_ID guild0) = None"
    by (simp add: bot0_def NewBot_def)
  have h2: "find (\<lambda>vs. UserID vs = Author_ID (message0 ''alice'' ''!join'')) (VoiceStates guild0)
       = Some \<lparr>UserID = ''alice'', VoiceState_ChannelID = ''voice''\<rparr>"
    by (simp add: guild0_def message0_def)
  have h3: "ChannelVoiceJoin session0 (Guild_ID guild0)
        (VoiceState_ChannelID \<lparr>UserID = ''alice'', VoiceState_ChannelID = ''voice''\<rparr>) False True
      = Inr vc0"
    by (simp add: session0_def guild0_def vc0_def)
  have g: "Guild_ID guild0 = ''g''" "Guild_Name guild0 = ''Guild''"
    "Channel_ID channel0 = ''text''" "vc_GuildID vc0 = ''g''" "vc_ChannelID vc0 = ''voice''"
    by (simp_all add: guild0_def channel0_def vc0_def)
  note t = join_join_leave_join [OF h1 h2 h3, of channel0]
  have c1: "HandleJoin bot0 session0 guild0 channel0 (message0 ''alice'' ''!join'') =
       (bot0\<lparr>GuildSessions := (GuildSessions bot0)(''g'' \<mapsto> new_GuildSession guild0 vc0)\<rparr>,
        [Println [Str ''Attempting to join voice channel in '', Str ''Guild''],
         Println [Str ''Creating new Guild session for '', Str ''Guild''],
         ChannelMessageSend ''text'' ''Hello Guild!''])"
    using t [THEN conjunct1] by (simp add: g)
  have c3: "HandleLeave (fst (HandleJoin bot0 session0 guild0 channel0 (message0 ''alice'' ''!join'')))
        session0 guild0
       = (bot0, [VoiceDisconnect ''g'' ''voice''])"
    using t [THEN conjunct2, THEN conjunct2, THEN conjunct1] by (simp only: g)
  show ?thesis
    by (intro conjI) (rule h1 h2 h3 c1 c3)+
qed

text \<open>
  Claim C8, as the code has it. \<open>HandleJoin\<close> looks for an existing session first: when
  the tenant has one, the answer is "I have already joined" and the bot is unchanged,
  whether or not the sender is in a voice channel. When the tenant has no session and
  the sender is in no voice channel of the guild, the answer is "You must join a voice
  channel first." and the bot is unchanged; when the sender is in one and the voice join
  fails, the error is printed and the bot is unchanged. So a call changes the registry
  only when the tenant had no session, the sender is in a voice channel and the join
  succeeded, and then by storing the new session of that connection.
\<close>

theorem HandleJoin_stores_only_on_success:
  "(GuildSessions b (Guild_ID g) = Some gs \<longrightarrow>
      HandleJoin b s g c m =
        (b, [Println [Str ''Already joined a voice channel in '', Str (Guild_Name g)],
             ChannelMessageSend (Channel_ID c)
               (''I have already joined a voice channel in '' @ Guild_Name g)]))
 \<and> (GuildSessions b (Guild_ID g) = None
      \<and> find (\<lambda>vs. UserID vs = Author_ID m) (VoiceStates g) = None \<longrightarrow>
      HandleJoin b s g c m =
        (b, [Println [Str ''Attempting to join voice channel in '', Str (Guild_Name g)],
             ChannelMessageSend (Channel_ID c) ''You must join a voice channel first.'']))
 \<and> (GuildSessions b (Guild_ID g) = None
      \<and> find (\<lambda>vs. UserID vs = Author_ID m) (VoiceStates g) = Some vs
      \<and> ChannelVoiceJoin s (Guild_ID g) (VoiceState_ChannelID vs) False True = Inl err \<longrightarrow>
      HandleJoin b s g c m =
        (b, [Println [Str ''Attempting to join voice channel in '', Str (Guild_Name g)],
             Println [Str ''Error joining voice channel:'', Err err]]))
 \<and> (fst (HandleJoin b s g c m) \<noteq> b \<longrightarrow>
      GuildSessions b (Guild_ID g) = None
      \<and> (\<exists>vs' vc. find (\<lambda>vs. UserID vs = Author_ID m) (VoiceStates g) = Some vs'
            \<and> ChannelVoiceJoin s (Guild_ID g) (VoiceState_ChannelID vs') False True = Inr vc
            \<and> fst (HandleJoin b s g c m) =
                b\<lparr>GuildSessions := (GuildSessions b)(Guild_ID g \<mapsto> new_GuildSession g vc)\<rparr>))"
proof (intro conjI impI)
  assume "GuildSessions b (Guild_ID g) = Some gs"
  then show "HandleJoin b s g c m =
        (b, [Println [Str ''Already joined a voice channel in '', Str (Guild_Name g)],
             ChannelMessageSend (Channel_ID c)
               (''I have already joined a voice channel in '' @ Guild_Name g)])"
    by (rule HandleJoin_AlreadyJoined)
next
  assume "GuildSessions b (Guild_ID g) = None
      \<and> find (\<lambda>vs. UserID vs = Author_ID m) (VoiceStates g) = None"
  then show "HandleJoin b s g c m =
        (b, [Println [Str ''Attempting to join voice channel in '', Str (Guild_Name g)],
             ChannelMessageSend (Channel_ID c) ''You must join a voice channel first.''])"
    by (simp add: HandleJoin_NotInVoice)
next
  assume "GuildSessions b (Guild_ID g) = None
      \<and> find (\<lambda>vs. UserID vs = Author_ID m) (VoiceStates g) = Some vs
      \<and> ChannelVoiceJoin s (Guild_ID g) (VoiceState_ChannelID vs) False True = Inl err"
  then show "HandleJoin b s g c m =
        (b, [Println [Str ''Attempting to join voice channel in '', Str (Guild_Name g)],
             Println [Str ''Error joining voice channel:'', Err err]])"
    by (simp add: HandleJoin_join_error)
next
  assume changed: "fst (HandleJoin b s g c m) \<noteq> b"
  then show "GuildSessions b (Guild_ID g) = None"
    by (cases "GuildSessions b (Guild_ID g)") (auto simp: HandleJoin_AlreadyJoined)
next
  assume changed: "fst (HandleJoin b s g c m) \<noteq> b"
  then have none: "GuildSessions b (Guild_ID g) = None"
    by (cases "GuildSessions b (Guild_ID g)") (auto simp: HandleJoin_AlreadyJoined)
  from changed none obtain vs' where
    vs': "find (\<lambda>vs. UserID vs = Author_ID m) (VoiceStates g) = Some vs'"
    by (cases "find (\<lambda>vs. UserID vs = Author_ID m) (VoiceStates g)")
       (auto simp: HandleJoin_NotInVoice)
  from changed none vs' obtain vc where
    vc: "ChannelVoiceJoin s (Guild_ID g) (VoiceState_ChannelID vs') False True = Inr vc"
    by (cases "ChannelVoiceJoin s (Guild_ID g) (VoiceState_ChannelID vs') False True")
       (auto simp: HandleJoin_join_error)
  show "\<exists>vs' vc. find (\<lambda>vs. UserID vs = Author_ID m) (VoiceStates g) = Some vs'
            \<and> ChannelVoiceJoin s (Guild_ID g) (VoiceState_ChannelID vs') False True = Inr vc
            \<and> fst (HandleJoin b s g c m) =
                b\<lparr>GuildSessions := (GuildSessions b)(Guild_ID g \<mapsto> new_GuildSession g vc)\<rparr>"
    using vs' vc HandleJoin_success [OF none vs' vc, of c] by auto
qed

text \<open>
  Concrete calls for each case: bob, who is in no voice channel, on a bot without a
  session and on one with a session; alice, who is in a voice channel, when the platform
  refuses the join and when it grants it.
\<close>

theorem HandleJoin_stores_only_on_success_witness:
  "HandleJoin (bot0\<lparr>GuildSessions := [''g'' \<mapsto> new_GuildSession guild0 vc0]\<rparr>)
      session0 guild0 channel0 (message0 ''bob'' ''!join'')
     = (bot0\<lparr>GuildSessions := [''g'' \<mapsto> new_GuildSession guild0 vc0]\<rparr>,
        [Println [Str ''Already joined a voice channel in '', Str ''Guild''],
         ChannelMessageSend ''text'' ''I have already joined a voice channel in Guild''])
   \<and> HandleJoin bot0 session0 guild0 channel0 (message0 ''bob'' ''!join'')
     = (bot0, [Println [Str ''Attempting to join voice channel in '', Str ''Guild''],
               ChannelMessageSend ''text'' ''You must join a voice channel first.''])
   \<and> HandleJoin bot0 (session0\<lparr>ChannelVoiceJoin := \<lambda>gID cID mute deaf. Inl (ErrOther ''timeout'')\<rparr>)
        guild0 channel0 (message0 ''alice'' ''!join'')
     = (bot0, [Println [Str ''Attempting to join voice channel in '', Str ''Guild''],
               Println [Str ''Error joining voice channel:'', Err (ErrOther ''timeout'')]])
   \<and> fst (HandleJoin bot0 session0 guild0 channel0 (message0 ''alice'' ''!join'')) \<noteq> bot0
   \<and> GuildSessions bot0 (Guild_ID guild0) = None"
proof -
  have g: "Guild_ID guild0 = ''g''" "Guild_Name guild0 = ''Guild''"
    "Channel_ID channel0 = ''text''"
    "VoiceStates guild0 = [\<lparr>UserID = ''alice'', VoiceState_ChannelID = ''voice''\<rparr>]"
    "GuildSessions bot0 = Map.empty"
    "Author_ID (message0 ''bob'' ''!join'') = ''bob''"
    "Author_ID (message0 ''alice'' ''!join'') = ''alice''"
    by (simp_all add: guild0_def channel0_def bot0_def NewBot_def message0_def)
  have c1: "HandleJoin (bot0\<lparr>GuildSessions := [''g'' \<mapsto> new_GuildSession guild0 vc0]\<rparr>)
      session0 guild0 channel0 (message0 ''bob'' ''!join'')
     = (bot0\<lparr>GuildSessions := [''g'' \<mapsto> new_GuildSession guild0 vc0]\<rparr>,
        [Println [Str ''Already joined a voice channel in '', Str ''Guild''],
         ChannelMessageSend ''text'' ''I have already joined a voice channel in Guild''])"
    using HandleJoin_stores_only_on_success
      [of "bot0\<lparr>GuildSessions := [''g'' \<mapsto> new_GuildSession guild0 vc0]\<rparr>" guild0
          "new_GuildSession guild0 vc0" session0 channel0 "message0 ''bob'' ''!join''",
       THEN conjunct1]
    by (simp add: g)
  have c2: "HandleJoin bot0 session0 guild0 channel0 (message0 ''bob'' ''!join'')
     = (bot0, [Println [Str ''Attempting to join voice channel in '', Str ''Guild''],
               ChannelMessageSend ''text'' ''You must join a voice channel first.''])"
    using HandleJoin_stores_only_on_success
      [of bot0 guild0 _ session0 channel0 "message0 ''bob'' ''!join''",
       THEN conjunct2, THEN conjunct1]
    by (simp add: g)
  have c3: "HandleJoin bot0 (session0\<lparr>ChannelVoiceJoin := \<lambda>gID cID mute deaf. Inl (ErrOther ''timeout'')\<rparr>)
        guild0 channel0 (message0 ''alice'' ''!join'')
     = (bot0, [Println [Str ''Attempting to join voice channel in '', Str ''Guild''],
               Println [Str ''Error joining voice channel:'', Err (ErrOther ''timeout'')]])"
    using HandleJoin_stores_only_on_success
      [of bot0 guild0 _ "session0\<lparr>ChannelVoiceJoin := \<lambda>gID cID mute deaf. Inl (ErrOther ''timeout'')\<rparr>"
          channel0 "message0 ''alice'' ''!join''"
          "\<lparr>UserID = ''alice'', VoiceState_ChannelID = ''voice''\<rparr>" "ErrOther ''timeout''",
       THEN conjunct2, THEN conjunct2, THEN conjunct1]
    by (simp add: g)
  have c4: "fst (HandleJoin bot0 session0 guild0 channel0 (message0 ''alice'' ''!join'')) \<noteq> bot0"
  proof
    assume "fst (HandleJoin bot0 session0 guild0 channel0 (message0 ''alice'' ''!join'')) = bot0"
    then have "GuildSessions (fst (HandleJoin bot0 session0 guild0 channel0
        (message0 ''alice'' ''!join''))) ''g'' = GuildSessions bot0 ''g''"
      by simp
    then show False
      by (simp add: HandleJoin_def g session0_def)
  qed
  have c5: "GuildSessions bot0 (Guild_ID guild0) = None"
    using c4 HandleJoin_stores_only_on_success
      [of bot0 guild0 _ session0 channel0 "message0 ''alice'' ''!join''",
       THEN conjunct2, THEN conjunct2, THEN conjunct2]
    by blast
  show ?thesis
    by (intro conjI) (rule c1 c2 c3 c4 c5)+
qed

text \<open>
  Claim C8, as stated, fails: bob is in no voice channel of the guild, the tenant has a
  session already, and the outcome of his \<open>join\<close> is "I have already joined", not "You
  must join a voice channel first.", while a session stays stored for the tenant.
\<close>

theorem HandleJoin_no_presence_AlreadyJoined_counterexample:
  "find (\<lambda>vs. UserID vs = Author_ID (message0 ''bob'' ''!join'')) (VoiceStates guild0) = None
   \<and> HandleJoin (bot0\<lparr>GuildSessions := [''g'' \<mapsto> new_GuildSession guild0 vc0]\<rparr>)
        session0 guild0 channel0 (message0 ''bob'' ''!join'')
     = (bot0\<lparr>GuildSessions := [''g'' \<mapsto> new_GuildSession guild0 vc0]\<rparr>,
        [Println [Str ''Already joined a voice channel in '', Str ''Guild''],
         ChannelMessageSend ''text'' ''I have already joined a voice channel in Guild''])"
  by (simp add: HandleJoin_def guild0_def message0_def channel0_def)

text \<open>
  The earlier revisions behave otherwise. The oldest one stores a session for a tenant
  without one whoever sends the command and whatever the voice join answers; the one in
  \<open>main.go\<close> stores it for a sender in a voice channel also when the voice join fails.
\<close>

lemma HandleJoin_part_000_always_stores:
  assumes "sessions (Guild_ID g) = None"
  shows "fst (HandleJoin_part_000 sessions s g c m) (Guild_ID g)
       = Some \<lparr>old_ID = Guild_ID g, old_GuildName = Guild_Name g\<rparr>"
  using assms by (simp add: HandleJoin_part_000_def)

lemma HandleJoin_main_go_stores_before_join:
  assumes "sessions (Guild_ID g) = None"
    and "find (\<lambda>vs. UserID vs = Author_ID m) (VoiceStates g) = Some vs"
    and "ChannelVoiceJoin s (Guild_ID g) (VoiceState_ChannelID vs) False True = Inl err"
  shows "HandleJoin_main_go sessions s g c m =
    (sessions(Guild_ID g \<mapsto> \<lparr>old_ID = Guild_ID g, old_GuildName = Guild_Name g\<rparr>),
     [Println [Str ''Attempting to join voice channel in '', Str (Guild_Name g)],
      Println [Str ''Creating new Guild session for '', Str (Guild_Name g)],
      Println [Str ''Error joining voice channel:'', Err err]])"
  using assms by (simp add: HandleJoin_main_go_def)

section \<open>Command dispatcher: proofs\<close>

lemma strings_Fields_play: "strings_Fields ''!play'' = [''!play'']"
  by (simp add: strings_Fields_def space_width_def)

text \<open>
  Claim C10. A message whose content is exactly \<open>!play\<close>, from a user other than the bot,
  in a channel and a guild that the state cache knows, makes \<open>CommandCenter\<close> panic: the
  message has one field and \<open>args[1]\<close> is out of range. Nothing is sent to the channel.
\<close>

theorem CommandCenter_play_without_name_panics:
  assumes "Author_ID m \<noteq> State_User_ID s"
    and "State_Channel s (ChannelID m) = Inr c"
    and "State_Guild s (GuildID c) = Inr g"
    and "Content m = ''!play''"
  shows "CommandCenter b w s m = Panicked (IndexOutOfRange 1 1)"
  using assms
  by (simp add: CommandCenter_def strings_Fields_play strings_HasPrefix_def
        strings_TrimPrefix_def)

theorem CommandCenter_play_without_name_panics_witness:
  "Author_ID (message0 ''alice'' ''!play'') \<noteq> State_User_ID session0
   \<and> State_Channel session0 (ChannelID (message0 ''alice'' ''!play'')) = Inr channel0
   \<and> State_Guild session0 (GuildID channel0) = Inr guild0
   \<and> Content (message0 ''alice'' ''!play'') = ''!play''
   \<and> CommandCenter bot0 world0 session0 (message0 ''alice'' ''!play'')
       = Panicked (IndexOutOfRange 1 1)"
proof -
  have h1: "Author_ID (message0 ''alice'' ''!play'') \<noteq> State_User_ID session0"
    by (simp add: message0_def session0_def)
  have h2: "State_Channel session0 (ChannelID (message0 ''alice'' ''!play'')) = Inr channel0"
    by (simp add: message0_def session0_def)
  have h3: "State_Guild session0 (GuildID channel0) = Inr guild0"
    by (simp add: channel0_def session0_def)
  have h4: "Content (message0 ''alice'' ''!play'') = ''!play''"
    by (simp add: message0_def)
  show ?thesis
    using h1 h2 h3 h4 CommandCenter_play_without_name_panics [OF h1 h2 h3 h4, of bot0 world0]
    by blast
qed

section \<open>Drain loop: proofs\<close>

lemma send_frames_unlimited:
  assumes "OpusSend_room vc = None"
  shows "send_frames vc frs = (vc\<lparr>OpusSend := OpusSend vc @ frs\<rparr>, True)"
  using assms
  by (induction frs arbitrary: vc) (simp_all add: OpusSend_send_def)


text \<open>
  With a transport that keeps receiving, the drain sends every frame of every queued
  clip, in the order of the queue, and then clears the flag and the speaking indicator.
\<close>

lemma PlayFromQueue_loop_unlimited:
  assumes "OpusSend_room (VoiceConnection gs) = None"
  shows "PlayFromQueue_loop gs =
    Returned (gs\<lparr>VoiceConnection := (VoiceConnection gs)
                  \<lparr>OpusSend := OpusSend (VoiceConnection gs)
                                @ concat (map buffer (buf (PlayQueue gs))),
                   speaking := False\<rparr>,
                 PlayQueue := (PlayQueue gs)\<lparr>buf := []\<rparr>,
                 IsVoicePlaying := False\<rparr>)"
  using assms
proof (induction "buf (PlayQueue gs)" arbitrary: gs)
  case Nil
  have "(PlayQueue gs)\<lparr>buf := []\<rparr> = PlayQueue gs"
    using Nil(1) by (cases "PlayQueue gs") simp
  then show ?case
    using Nil(1) [symmetric]
    by (subst PlayFromQueue_loop.simps) (simp add: chan_try_recv_def Speaking_def)
next
  case (Cons clip rest)
  let ?gs' = "gs\<lparr>VoiceConnection := (VoiceConnection gs)
                  \<lparr>OpusSend := OpusSend (VoiceConnection gs) @ buffer clip\<rparr>,
                PlayQueue := (PlayQueue gs)\<lparr>buf := rest\<rparr>\<rparr>"
  have "PlayFromQueue_loop gs = PlayFromQueue_loop ?gs'"
    using Cons(2) [symmetric] Cons.prems
    by (subst PlayFromQueue_loop.simps)
       (simp add: chan_try_recv_def send_frames_unlimited)
  also have "\<dots> = Returned (?gs'\<lparr>VoiceConnection := (VoiceConnection ?gs')
                  \<lparr>OpusSend := OpusSend (VoiceConnection ?gs')
                                @ concat (map buffer (buf (PlayQueue ?gs'))),
                   speaking := False\<rparr>,
                 PlayQueue := (PlayQueue ?gs')\<lparr>buf := []\<rparr>,
                 IsVoicePlaying := False\<rparr>)"
    by (rule Cons(1)) (use Cons.prems in simp_all)
  finally show ?case
    using Cons(2) [symmetric] by simp
qed






section \<open>Concurrent triggers: proofs\<close>

text \<open>A trigger that reads the flag while it is set returns without touching the session.\<close>

lemma step_At_Load_playing:
  assumes "i < length (threads sys)" and "threads sys ! i = At_Load"
    and "IsVoicePlaying (session sys)"
  shows "step i sys = \<lparr>session = session sys, threads = (threads sys)[i := Finished]\<rparr>"
  using assms by (simp add: step_def)

text \<open>
  A trigger that runs alone does what the sequential reading of \<open>PlayFromQueue\<close> says:
  when \<open>PlayFromQueue\<close> returns, the lone call reaches its end in the same session state.
\<close>

lemma run_append: "run (xs @ ys) sys = run ys (run xs sys)"
  by (simp add: run_def)

lemma run_replicate_add:
  "run (replicate (m + n) i) sys = run (replicate n i) (run (replicate m i) sys)"
  by (simp add: replicate_add run_append)

lemma run_single: "run [i] sys = step i sys"
  by (simp add: run_def)

lemma lone_send_frames:
  assumes "send_frames vc frs = (vc', True)"
  shows "\<exists>n. run (replicate n 0) \<lparr>session = gs\<lparr>VoiceConnection := vc\<rparr>, threads = [At_send frs]\<rparr>
           = \<lparr>session = gs\<lparr>VoiceConnection := vc'\<rparr>, threads = [At_Sleep]\<rparr>"
  using assms
proof (induction frs arbitrary: vc)
  case Nil
  then have "run (replicate 1 0) \<lparr>session = gs\<lparr>VoiceConnection := vc\<rparr>, threads = [At_send []]\<rparr>
           = \<lparr>session = gs\<lparr>VoiceConnection := vc'\<rparr>, threads = [At_Sleep]\<rparr>"
    by (simp add: run_def step_def)
  then show ?case by blast
next
  case (Cons buff rest)
  from Cons.prems obtain vc1 where
    s: "OpusSend_send vc buff = Some vc1" and r: "send_frames vc1 rest = (vc', True)"
    by (cases "OpusSend_send vc buff") simp_all
  from Cons.IH [OF r] obtain n where
    n: "run (replicate n 0) \<lparr>session = gs\<lparr>VoiceConnection := vc1\<rparr>, threads = [At_send rest]\<rparr>
           = \<lparr>session = gs\<lparr>VoiceConnection := vc'\<rparr>, threads = [At_Sleep]\<rparr>"
    by blast
  have "run (replicate 1 0) \<lparr>session = gs\<lparr>VoiceConnection := vc\<rparr>, threads = [At_send (buff # rest)]\<rparr>
      = \<lparr>session = gs\<lparr>VoiceConnection := vc1\<rparr>, threads = [At_send rest]\<rparr>"
    using s by (simp add: run_def step_def)
  with n have "run (replicate (1 + n) 0)
        \<lparr>session = gs\<lparr>VoiceConnection := vc\<rparr>, threads = [At_send (buff # rest)]\<rparr>
      = \<lparr>session = gs\<lparr>VoiceConnection := vc'\<rparr>, threads = [At_Sleep]\<rparr>"
    by (simp only: run_replicate_add)
  then show ?case by blast
qed

lemma lone_PlayFromQueue_loop:
  assumes "PlayFromQueue_loop gs = Returned gs'"
  shows "\<exists>n. run (replicate n 0) \<lparr>session = gs, threads = [At_select]\<rparr>
           = \<lparr>session = gs', threads = [Finished]\<rparr>"
  using assms
proof (induction gs rule: PlayFromQueue_loop.induct)
  case (1 gs)
  show ?case
  proof (cases "chan_try_recv (PlayQueue gs)")
    case None
    with "1.prems" have gs': "gs' = gs\<lparr>IsVoicePlaying := False,
        VoiceConnection := Speaking (VoiceConnection gs) False\<rparr>"
      by (subst (asm) PlayFromQueue_loop.simps) simp
    have "run (replicate 3 0) \<lparr>session = gs, threads = [At_select]\<rparr>
        = \<lparr>session = gs', threads = [Finished]\<rparr>"
      using None by (simp add: run_def step_def gs' numeral_3_eq_3)
    then show ?thesis by blast
  next
    case (Some r)
    obtain dequeued q where r: "r = (dequeued, q)" by (cases r)
    obtain vc' ok where sf: "send_frames (VoiceConnection gs) (buffer dequeued) = (vc', ok)"
      by (cases "send_frames (VoiceConnection gs) (buffer dequeued)")
    have ok: "ok"
    proof (rule ccontr)
      assume "\<not> ok"
      with "1.prems" Some r sf show False
        by (subst (asm) PlayFromQueue_loop.simps) simp
    qed
    let ?gs1 = "gs\<lparr>VoiceConnection := vc', PlayQueue := q\<rparr>"
    from "1.prems" Some r sf ok have next_loop: "PlayFromQueue_loop ?gs1 = Returned gs'"
      by (subst (asm) PlayFromQueue_loop.simps) simp
    from sf ok have sf': "(vc', True) = send_frames (VoiceConnection gs) (buffer dequeued)"
      by simp
    from "1.IH" [OF Some r [symmetric] sf' refl next_loop] obtain n2 where
      n2: "run (replicate n2 0) \<lparr>session = ?gs1, threads = [At_select]\<rparr>
            = \<lparr>session = gs', threads = [Finished]\<rparr>"
      by blast
    have a: "run (replicate 1 0) \<lparr>session = gs, threads = [At_select]\<rparr>
        = \<lparr>session = (gs\<lparr>PlayQueue := q\<rparr>)\<lparr>VoiceConnection := VoiceConnection gs\<rparr>,
           threads = [At_send (buffer dequeued)]\<rparr>"
      using Some r by (simp add: run_def step_def)
    from lone_send_frames [OF sf' [symmetric], of "gs\<lparr>PlayQueue := q\<rparr>"]
    obtain n1 where
      b: "run (replicate n1 0)
            \<lparr>session = (gs\<lparr>PlayQueue := q\<rparr>)\<lparr>VoiceConnection := VoiceConnection gs\<rparr>,
             threads = [At_send (buffer dequeued)]\<rparr>
          = \<lparr>session = (gs\<lparr>PlayQueue := q\<rparr>)\<lparr>VoiceConnection := vc'\<rparr>, threads = [At_Sleep]\<rparr>"
      by blast
    have c: "run (replicate 1 0)
            \<lparr>session = (gs\<lparr>PlayQueue := q\<rparr>)\<lparr>VoiceConnection := vc'\<rparr>, threads = [At_Sleep]\<rparr>
          = \<lparr>session = ?gs1, threads = [At_select]\<rparr>"
      by (simp add: run_def step_def)
    have "run (replicate (1 + n1 + 1 + n2) 0) \<lparr>session = gs, threads = [At_select]\<rparr>
        = \<lparr>session = gs', threads = [Finished]\<rparr>"
      by (simp only: run_replicate_add a b c n2)
    then show ?thesis by blast
  qed
qed

lemma lone_trigger_PlayFromQueue:
  assumes "PlayFromQueue gs = Returned (gs', ev)"
  shows "\<exists>n. run (replicate n 0) (triggers 1 gs) = \<lparr>session = gs', threads = [Finished]\<rparr>"
proof (cases "IsVoicePlaying gs")
  case True
  with assms have "gs' = gs" by (simp add: PlayFromQueue_def)
  with True have "run (replicate 1 0) (triggers 1 gs) = \<lparr>session = gs', threads = [Finished]\<rparr>"
    by (simp add: run_def step_def triggers_def)
  then show ?thesis by blast
next
  case False
  let ?gs1 = "gs\<lparr>IsVoicePlaying := True, VoiceConnection := Speaking (VoiceConnection gs) True\<rparr>"
  from assms False have "PlayFromQueue_loop ?gs1 = Returned gs'"
    by (cases "PlayFromQueue_loop ?gs1") (simp_all add: PlayFromQueue_def)
  then obtain n where
    n: "run (replicate n 0) \<lparr>session = ?gs1, threads = [At_select]\<rparr>
          = \<lparr>session = gs', threads = [Finished]\<rparr>"
    using lone_PlayFromQueue_loop by blast
  have "run (replicate 3 0) (triggers 1 gs) = \<lparr>session = ?gs1, threads = [At_select]\<rparr>"
    using False by (simp add: run_def step_def triggers_def numeral_3_eq_3)
  with n have "run (replicate (3 + n) 0) (triggers 1 gs)
      = \<lparr>session = gs', threads = [Finished]\<rparr>"
    by (simp only: run_replicate_add)
  then show ?thesis by blast
qed

text \<open>
  Claim C1 at its failing input: two concurrent triggers on an idle session whose queue
  holds the clips \<open>a\<close> (frames 1, 2) and \<open>b\<close> (frame 3). Both read the flag before either
  stores it, so both pass the test, both store \<open>true\<close> and both enter the loop: after the
  schedule below two calls own the drain at once, each has taken a clip from the queue,
  and the frame of \<open>b\<close> has gone out between the two frames of \<open>a\<close>.
\<close>

theorem two_triggers_both_drain:
  "drain_owners (run [0, 1, 0, 1]
      (triggers 2 ((new_GuildSession guild0 vc0)\<lparr>PlayQueue := \<lparr>buf = [clip_a, clip_b], cap = 10\<rparr>\<rparr>)))
     = 2
   \<and> run [0, 1, 0, 1, 0, 1, 0, 1, 0, 1, 0]
      (triggers 2 ((new_GuildSession guild0 vc0)\<lparr>PlayQueue := \<lparr>buf = [clip_a, clip_b], cap = 10\<rparr>\<rparr>))
     = \<lparr>session = (new_GuildSession guild0 vc0)
          \<lparr>PlayQueue := \<lparr>buf = [], cap = 10\<rparr>, IsVoicePlaying := True,
           VoiceConnection := vc0\<lparr>speaking := True, OpusSend := [[1], [3], [2]]\<rparr>\<rparr>,
        threads = [At_send [], At_send []]\<rparr>"
  by (simp add: run_def step_def triggers_def drain_owners_def new_GuildSession_def
        chan_try_recv_def OpusSend_send_def Speaking_def vc0_def clip_a_def clip_b_def
        numeral_2_eq_2)

section \<open>Clip catalog: proofs\<close>

lemma Load_depends_on_own_file:
  assumes "fs (dca_path (name vm)) = fs' (dca_path (name vm))"
  shows "Load fs vm = Load fs' vm"
  using assms by (simp add: Load_def os_Open_def)

lemma LoadAll_range_Cons:
  assumes "LoadAll_range fs ((k0, v0) # st) = Inr st'"
  obtains v0' e0 rest' where "Load fs v0 = Inr (v0', e0)"
    and "LoadAll_range fs st = Inr rest'" and "st' = (k0, v0') # rest'"
proof (cases "Load fs v0")
  case (Inl p)
  with assms show ?thesis by simp
next
  case (Inr r)
  obtain v0' e0 where r: "r = (v0', e0)" by (cases r)
  show ?thesis
  proof (cases "LoadAll_range fs st")
    case (Inl p)
    with assms Inr r show ?thesis by simp
  next
    case rest: (Inr rest')
    with assms Inr r have "st' = (k0, v0') # rest'" by simp
    with Inr r rest that show ?thesis by simp
  qed
qed

lemma LoadAll_range_keys:
  "LoadAll_range fs st = Inr st' \<Longrightarrow> map fst st' = map fst st"
proof (induction st arbitrary: st')
  case Nil
  then show ?case by simp
next
  case (Cons kv st)
  obtain k0 v0 where kv: "kv = (k0, v0)" by (cases kv)
  from Cons.prems [unfolded kv] obtain v0' e0 rest' where
    "LoadAll_range fs st = Inr rest'" "st' = (k0, v0') # rest'"
    by (rule LoadAll_range_Cons)
  with Cons.IH [of rest'] kv show ?case by simp
qed

lemma LoadAll_range_entry:
  "LoadAll_range fs st = Inr st' \<Longrightarrow> (k, vm) \<in> set st \<Longrightarrow> Load fs vm = Inr (vm', e)
   \<Longrightarrow> (k, vm') \<in> set st'"
proof (induction st arbitrary: st')
  case Nil
  then show ?case by simp
next
  case (Cons kv st)
  obtain k0 v0 where kv: "kv = (k0, v0)" by (cases kv)
  from Cons.prems(1) [unfolded kv] obtain v0' e0 rest' where
    l: "Load fs v0 = Inr (v0', e0)" and r: "LoadAll_range fs st = Inr rest'"
    and s: "st' = (k0, v0') # rest'"
    by (rule LoadAll_range_Cons)
  show ?case
  proof (cases "(k, vm) = (k0, v0)")
    case True
    with l Cons.prems(3) have "vm' = v0'" by simp
    with True s show ?thesis by simp
  next
    case False
    with Cons.prems(2) kv have "(k, vm) \<in> set st" by auto
    from Cons.IH [OF r this Cons.prems(3)] s show ?thesis by simp
  qed
qed

lemma Load_loop_name:
  "Load_loop f bs vm = Inr (vm', e) \<Longrightarrow> name vm' = name vm"
proof (induction f bs vm rule: Load_loop.induct)
  case (1 f bs vm)
  show ?case
  proof (cases "binary_Read_int16 bs")
    case (Inl err)
    with "1.prems" show ?thesis
      by (subst (asm) Load_loop.simps) (simp split: if_splits option.splits)
  next
    case (Inr r)
    obtain opuslen rest where r: "r = (opuslen, rest)" by (cases r)
    show ?thesis
    proof (cases "sint opuslen < 0")
      case True
      with "1.prems" Inr r show ?thesis
        by (subst (asm) Load_loop.simps) simp
    next
      case False
      show ?thesis
      proof (cases "binary_Read_bytes rest (nat (sint opuslen))")
        case (Inl err)
        with "1.prems" Inr r False show ?thesis
          by (subst (asm) Load_loop.simps) simp
      next
        case payload: (Inr q)
        obtain IntBuf rest' where q: "q = (IntBuf, rest')" by (cases q)
        from "1.prems" Inr r False payload q
        have "Load_loop f rest' (vm\<lparr>buffer := buffer vm @ [IntBuf]\<rparr>) = Inr (vm', e)"
          by (subst (asm) Load_loop.simps) simp
        from "1.IH" [OF Inr r [symmetric] False payload q [symmetric] this]
        show ?thesis by simp
      qed
    qed
  qed
qed

lemma Load_name: "Load fs vm = Inr (vm', e) \<Longrightarrow> name vm' = name vm"
proof (cases "os_Open fs (dca_path (name vm))")
  case (Inl err)
  assume "Load fs vm = Inr (vm', e)"
  with Inl show ?thesis by (simp add: Load_def)
next
  case (Inr f)
  assume "Load fs vm = Inr (vm', e)"
  with Inr have "Load_loop f (contents f) vm = Inr (vm', e)" by (simp add: Load_def)
  then show ?thesis by (rule Load_loop_name)
qed

lemma HandleUpload_stores:
  assumes "Attachments msg = a # others"
    and "http_Get w (URL a) = Inr body"
    and "os_Create w (''voicememo_files/'' @ Filename a) = None"
    and "io_Copy w = None"
    and "os_Create w (dca_path (Split_dot_first (Filename a))) = None"
    and "Load [dca_path (Split_dot_first (Filename a)) \<mapsto>
                 \<lparr>contents = transcode w body, close_result = None\<rparr>]
              \<lparr>name = Split_dot_first (Filename a), buffer = []\<rparr> = Inr (clip, derr)"
  shows "\<exists>w' ev. HandleUpload b w s msg =
           Inr (b\<lparr>VoiceMemoManager := (VoiceMemoManager b)
                    \<lparr>Store := map_store (Store (VoiceMemoManager b))
                                (Split_dot_first (Filename a)) clip\<rparr>\<rparr>,
                w',
                ChannelMessageSend (ChannelID msg)
                  (''Successfully uploaded '' @ Split_dot_first (Filename a)) # ev)"
proof -
  let ?n = "Split_dot_first (Filename a)"
  let ?fs2 = "((files w)(''voicememo_files/'' @ Filename a \<mapsto>
                  \<lparr>contents = body, close_result = None\<rparr>))
              (dca_path ?n \<mapsto> \<lparr>contents = transcode w body, close_result = None\<rparr>)"
  have "Load ?fs2 \<lparr>name = ?n, buffer = []\<rparr>
      = Load [dca_path ?n \<mapsto> \<lparr>contents = transcode w body, close_result = None\<rparr>]
          \<lparr>name = ?n, buffer = []\<rparr>"
    by (rule Load_depends_on_own_file) simp
  then have ld: "Load ?fs2 \<lparr>name = ?n, buffer = []\<rparr> = Inr (clip, derr)"
    using assms(6) by simp
  have "name clip = ?n"
    using Load_name [OF assms(6)] by simp
  with ld show ?thesis
    using assms(1-5) by (simp add: HandleUpload_def Let_def)
qed

text \<open>
  The missed check, for any input. \<open>Load\<close> returns its error, but neither caller looks
  at it. \<open>LoadAll\<close> returns \<open>nil\<close> and keeps the key of every catalog entry, so an entry
  whose file fails to decode stays in the catalog with the frames decoded before the
  failure. \<open>HandleUpload\<close>, which gives up on every earlier failure, goes on after a
  failed \<open>Load\<close>: it stores the clip and sends "Successfully uploaded".
\<close>

lemma Load_result_is_dropped:
  "(LoadAll fs m = Inr (m', err) \<longrightarrow>
      err = None \<and> map fst (Store m') = map fst (Store m))
 \<and> (LoadAll fs m = Inr (m', err) \<and> (k, vm) \<in> set (Store m)
      \<and> Load fs vm = Inr (vm', Some e) \<longrightarrow>
      (k, vm') \<in> set (Store m'))
 \<and> (Attachments msg = a # others
      \<and> http_Get w (URL a) = Inr body
      \<and> os_Create w (''voicememo_files/'' @ Filename a) = None
      \<and> io_Copy w = None
      \<and> os_Create w (dca_path (Split_dot_first (Filename a))) = None
      \<and> Load [dca_path (Split_dot_first (Filename a)) \<mapsto>
                 \<lparr>contents = transcode w body, close_result = None\<rparr>]
              \<lparr>name = Split_dot_first (Filename a), buffer = []\<rparr> = Inr (clip, Some e) \<longrightarrow>
      (\<exists>w' ev. HandleUpload b w s msg =
           Inr (b\<lparr>VoiceMemoManager := (VoiceMemoManager b)
                    \<lparr>Store := map_store (Store (VoiceMemoManager b))
                                (Split_dot_first (Filename a)) clip\<rparr>\<rparr>,
                w',
                ChannelMessageSend (ChannelID msg)
                  (''Successfully uploaded '' @ Split_dot_first (Filename a)) # ev)))"
proof -
  have keys: "err = None \<and> map fst (Store m') = map fst (Store m)"
    if "LoadAll fs m = Inr (m', err)"
    using that by (auto simp: LoadAll_def split: sum.splits dest: LoadAll_range_keys)
  have entry: "(k, vm') \<in> set (Store m')"
    if "LoadAll fs m = Inr (m', err) \<and> (k, vm) \<in> set (Store m)
      \<and> Load fs vm = Inr (vm', Some e)"
  proof -
    from that obtain st' where "LoadAll_range fs (Store m) = Inr st'" "Store m' = st'"
      by (auto simp: LoadAll_def split: sum.splits)
    with that show ?thesis
      using LoadAll_range_entry [of fs "Store m" st' k vm vm' "Some e"] by simp
  qed
  have upload: "\<exists>w' ev. HandleUpload b w s msg =
           Inr (b\<lparr>VoiceMemoManager := (VoiceMemoManager b)
                    \<lparr>Store := map_store (Store (VoiceMemoManager b))
                                (Split_dot_first (Filename a)) clip\<rparr>\<rparr>,
                w',
                ChannelMessageSend (ChannelID msg)
                  (''Successfully uploaded '' @ Split_dot_first (Filename a)) # ev)"
    if u: "Attachments msg = a # others
      \<and> http_Get w (URL a) = Inr body
      \<and> os_Create w (''voicememo_files/'' @ Filename a) = None
      \<and> io_Copy w = None
      \<and> os_Create w (dca_path (Split_dot_first (Filename a))) = None
      \<and> Load [dca_path (Split_dot_first (Filename a)) \<mapsto>
                 \<lparr>contents = transcode w body, close_result = None\<rparr>]
              \<lparr>name = Split_dot_first (Filename a), buffer = []\<rparr> = Inr (clip, Some e)"
    by (rule HandleUpload_stores [of msg a others w body clip "Some e"]) (use u in blast)+
  show ?thesis
    apply (rule conjI)
     apply (rule impI)
     apply (erule keys)
    apply (rule conjI)
     apply (rule impI)
     apply (erule entry)
    apply (rule impI)
    apply (erule upload)
    done
qed

lemma Load_broken_container:
  "Load [dca_path ''x'' \<mapsto> \<lparr>contents = broken_container, close_result = None\<rparr>]
        \<lparr>name = ''x'', buffer = []\<rparr>
   = Inr (\<lparr>name = ''x'', buffer = [[9]]\<rparr>, Some ErrUnexpectedEOF)"
proof -
  have c: "broken_container = encode_frames [[9]] @ le16 2 @ [1]"
    by (simp add: broken_container_def le16_def)
  have "Load [dca_path ''x'' \<mapsto> \<lparr>contents = broken_container, close_result = None\<rparr>]
          \<lparr>name = ''x'', buffer = []\<rparr>
      = Load_loop \<lparr>contents = broken_container, close_result = None\<rparr> (le16 2 @ [1])
          (\<lparr>name = ''x'', buffer = []\<rparr>\<lparr>buffer := buffer \<lparr>name = ''x'', buffer = []\<rparr> @ [[9]]\<rparr>)"
    by (rule Load_encode_frames) (simp_all add: c)
  also have "\<dots> = Inr (\<lparr>name = ''x'', buffer = [[9]]\<rparr>, Some ErrUnexpectedEOF)"
    using Load_loop_short_payload [of 2 "[1]"] by simp
  finally show ?thesis .
qed

lemma Load_broken_disk:
  "Load broken_disk \<lparr>name = ''x'', buffer = []\<rparr>
     = Inr (\<lparr>name = ''x'', buffer = [[9]]\<rparr>, Some ErrUnexpectedEOF)"
  using Load_broken_container by (simp add: broken_disk_def)

text \<open>
  Claim C6 at its failing input: the file \<open>x.dca\<close> holds one complete record and breaks
  off inside the second. The claim says that a clip whose container fails to decode is
  never registered and that a failed upload is reported as a failure. \<open>Load\<close> does
  return \<open>io.ErrUnexpectedEOF\<close> for the file; but at the start of the program the catalog
  of the bot holds the clip \<open>x\<close> with the one frame decoded before the failure, and an
  upload whose converted file is that container stores the same partial clip and
  answers "Successfully uploaded x".
\<close>

theorem failed_decode_registers_partial_clip:
  "Load broken_disk \<lparr>name = ''x'', buffer = []\<rparr>
     = Inr (\<lparr>name = ''x'', buffer = [[9]]\<rparr>, Some ErrUnexpectedEOF)
   \<and> main_startup (Inr [''x.dca'']) broken_disk
     = Inr (Some \<lparr>GuildSessions = Map.empty,
                  VoiceMemoManager = \<lparr>Store = [(''x'', \<lparr>name = ''x'', buffer = [[9]]\<rparr>)]\<rparr>\<rparr>)
   \<and> HandleUpload bot0 upload_world session0 upload_message
     = Inr (\<lparr>GuildSessions = Map.empty,
             VoiceMemoManager = \<lparr>Store = [(''x'', \<lparr>name = ''x'', buffer = [[9]]\<rparr>)]\<rparr>\<rparr>,
            upload_world\<lparr>files :=
              ([''voicememo_files/x.mp3'' \<mapsto> \<lparr>contents = [0], close_result = None\<rparr>,
                dca_path ''x'' \<mapsto> \<lparr>contents = broken_container, close_result = None\<rparr>])
              (''voicememo_files/x.mp3'' := None)\<rparr>,
            [ChannelMessageSend ''text'' ''Successfully uploaded x''])"
proof -
  have st: "main_startup (Inr [''x.dca'']) broken_disk
     = Inr (Some \<lparr>GuildSessions = Map.empty,
                  VoiceMemoManager = \<lparr>Store = [(''x'', \<lparr>name = ''x'', buffer = [[9]]\<rparr>)]\<rparr>\<rparr>)"
    by (simp add: main_startup_def NewVoiceMemoManager_def Split_dot_first_def LoadAll_def
          Load_broken_disk NewBot_def)
  have "Load ([''voicememo_files/x.mp3'' \<mapsto> \<lparr>contents = [0], close_result = None\<rparr>,
               dca_path ''x'' \<mapsto> \<lparr>contents = broken_container, close_result = None\<rparr>])
          \<lparr>name = ''x'', buffer = []\<rparr>
      = Load [dca_path ''x'' \<mapsto> \<lparr>contents = broken_container, close_result = None\<rparr>]
          \<lparr>name = ''x'', buffer = []\<rparr>"
    by (rule Load_depends_on_own_file) simp
  then have ld2: "Load ([''voicememo_files/x.mp3'' \<mapsto> \<lparr>contents = [0], close_result = None\<rparr>,
               dca_path ''x'' \<mapsto> \<lparr>contents = broken_container, close_result = None\<rparr>])
          \<lparr>name = ''x'', buffer = []\<rparr>
      = Inr (\<lparr>name = ''x'', buffer = [[9]]\<rparr>, Some ErrUnexpectedEOF)"
    by (simp only: Load_broken_container)
  have up: "HandleUpload bot0 upload_world session0 upload_message
     = Inr (\<lparr>GuildSessions = Map.empty,
             VoiceMemoManager = \<lparr>Store = [(''x'', \<lparr>name = ''x'', buffer = [[9]]\<rparr>)]\<rparr>\<rparr>,
            upload_world\<lparr>files :=
              ([''voicememo_files/x.mp3'' \<mapsto> \<lparr>contents = [0], close_result = None\<rparr>,
                dca_path ''x'' \<mapsto> \<lparr>contents = broken_container, close_result = None\<rparr>])
              (''voicememo_files/x.mp3'' := None)\<rparr>,
            [ChannelMessageSend ''text'' ''Successfully uploaded x''])"
    by (simp add: HandleUpload_def Let_def upload_message_def upload_world_def world0_def
          Split_dot_first_def ld2 bot0_def NewBot_def)
  show ?thesis
    using Load_broken_disk st up by (intro conjI)
qed

end
